theory Spec2Isabelle
  imports Main
begin

section \<open>Strings as the program sees them\<close>

text \<open>
  The service is a Node.js program (the robust sender, \<^verbatim>\<open>src/unnamed/part_000\<close>, lines 1-377).
  Its strings are modelled as \<^typ>\<open>string\<close>, a character outside ASCII standing as the bytes
  of its UTF-8 encoding (none of them is an ASCII character, so the operations used here,
  deleting non-digits, splitting at \<^verbatim>\<open>/\<close> and \<^verbatim>\<open>?\<close>, searching a substring, concatenating,
  give the same results). The regular expression \<^verbatim>\<open>/\D/g\<close> (no unicode flag) matches every
  character other than the ten ASCII digits, so \<^verbatim>\<open>s.replace(/\D/g, '')\<close> keeps exactly the
  ASCII digits of \<^verbatim>\<open>s\<close>, in order.
\<close>

definition isDigit :: "char \<Rightarrow> bool" where
  "isDigit c = (c \<in> set ''0123456789'')"

definition stripNonDigits :: "string \<Rightarrow> string" where
  "stripNonDigits s = filter isDigit s"

text \<open>
  \<^verbatim>\<open>const DEFAULT_COUNTRY_CODE = (process.env.DEFAULT_COUNTRY_CODE || '').replace(/\D/g, '')\<close>:
  the environment variable may be unset (\<open>None\<close>).
\<close>

definition DEFAULT_COUNTRY_CODE :: "string option \<Rightarrow> string" where
  "DEFAULT_COUNTRY_CODE env =
     stripNonDigits (case env of None \<Rightarrow> [] | Some v \<Rightarrow> if v = [] then [] else v)"

section \<open>Number normalizer\<close>

text \<open>
  \<^verbatim>\<open>normalizeNumber(raw)\<close>, lines 76-90. The first parameter is the value of the constant
  \<^verbatim>\<open>DEFAULT_COUNTRY_CODE\<close>; a string is truthy exactly when it is not empty, and
  \<open>None\<close> is JavaScript's \<^verbatim>\<open>null\<close>.
\<close>

definition normalizeNumber :: "string \<Rightarrow> string \<Rightarrow> string option" where
  "normalizeNumber cc raw =
     (if raw = [] then None
      else
        let digits = stripNonDigits raw in
        if digits = [] then None
        else if length digits \<ge> 11 then Some digits
        else
          let digits' =
                (if length digits \<ge> 8 \<and> length digits \<le> 10 \<and> cc \<noteq> []
                 then cc @ digits else digits)
          in if length digits' \<ge> 8 then Some digits' else None)"

section \<open>Text helpers\<close>

text \<open>
  \<^verbatim>\<open>String.prototype.includes\<close>: \<open>strIncludes s sub\<close> holds when \<open>sub\<close> occurs in \<open>s\<close> as a
  contiguous run of characters.
\<close>

fun startsWith :: "string \<Rightarrow> string \<Rightarrow> bool" where
  "startsWith s [] = True"
| "startsWith [] (c # cs) = False"
| "startsWith (d # ds) (c # cs) = (d = c \<and> startsWith ds cs)"

fun strIncludes :: "string \<Rightarrow> string \<Rightarrow> bool" where
  "strIncludes [] sub = (sub = [])"
| "strIncludes (c # cs) sub = (startsWith (c # cs) sub \<or> strIncludes cs sub)"

text \<open>Template literals print a non-negative integer in decimal.\<close>

definition digitChar :: "nat \<Rightarrow> char" where
  "digitChar d = ''0123456789'' ! d"

fun showNat :: "nat \<Rightarrow> string" where
  "showNat n = (if n < 10 then [digitChar n] else showNat (n div 10) @ [digitChar (n mod 10)])"

declare showNat.simps [simp del]

section \<open>Thrown values, effects and asynchronous tasks\<close>

text \<open>
  A thrown value is an \<^verbatim>\<open>Error\<close> object (with its \<^verbatim>\<open>name\<close> and \<^verbatim>\<open>message\<close>) or
  \<^verbatim>\<open>undefined\<close>. Every handler of the program turns it into text with
  \<^verbatim>\<open>String(err && err.message || err)\<close>: the message when it is not empty, and otherwise
  what \<^verbatim>\<open>Error.prototype.toString\<close> prints for an empty message, the name.
\<close>

datatype thrown = Undefined | Error (name: string) (message: string)

fun errMsg :: "thrown \<Rightarrow> string" where
  "errMsg Undefined = ''undefined''"
| "errMsg (Error n m) = (if m \<noteq> [] then m else n)"

text \<open>\<^verbatim>\<open>new MessageMedia(mimetype, data, filename)\<close>; \<open>data\<close> is base64 text.\<close>

record media =
  mimetype :: string
  data :: string
  filename :: "string option"

text \<open>
  The second and third arguments of \<^verbatim>\<open>client.sendMessage\<close>: a media object with the
  options \<^verbatim>\<open>{ caption }\<close>, or a text.
\<close>

datatype content = MediaContent media "string option" | TextContent string

datatype console = ConsoleLog | ConsoleWarn | ConsoleError

text \<open>
  What a task does to the outside, in order: a console line (the arguments after the
  timestamp), a suspension of \<^verbatim>\<open>sleep(ms)\<close>, and the calls to the two collaborators (the
  messaging client and the HTTP fetcher).
\<close>

datatype event =
    Console console "string list"
  | Sleep nat
  | FromUrl string
  | AxiosGet string
  | GetNumberId string
  | GetChatById string
  | SendMessage string content

text \<open>Kinds of events: a fetch of the media, a call to the messaging client, a send of a
  text.\<close>

fun isFetch :: "event \<Rightarrow> bool" where
  "isFetch (FromUrl url) = True"
| "isFetch (AxiosGet url) = True"
| "isFetch ev = False"

fun isClientCall :: "event \<Rightarrow> bool" where
  "isClientCall (GetNumberId n) = True"
| "isClientCall (GetChatById chatId) = True"
| "isClientCall (SendMessage chatId content) = True"
| "isClientCall ev = False"


text \<open>
  An asynchronous function is a function of the state it runs in: it ends by returning
  (\<open>Inr\<close>) or by throwing (\<open>Inl\<close>), has emitted a list of events, and leaves a new state.
\<close>

type_synonym ('s, 'a) task = "'s \<Rightarrow> (thrown + 'a) \<times> event list \<times> 's"

definition ret :: "'a \<Rightarrow> ('s, 'a) task" where
  "ret x = (\<lambda>s. (Inr x, [], s))"

definition throw :: "thrown \<Rightarrow> ('s, 'a) task" where
  "throw e = (\<lambda>s. (Inl e, [], s))"

definition emit :: "event \<Rightarrow> ('s, unit) task" where
  "emit ev = (\<lambda>s. (Inr (), [ev], s))"

text \<open>\<open>andThen m f\<close>: run \<open>m\<close>; if it returns \<open>x\<close>, go on with \<open>f x\<close>; if it throws, the throw
  propagates.\<close>

definition andThen :: "('s, 'a) task \<Rightarrow> ('a \<Rightarrow> ('s, 'b) task) \<Rightarrow> ('s, 'b) task" where
  "andThen m f =
     (\<lambda>s. case m s of
        (Inl e, t, s') \<Rightarrow> (Inl e, t, s')
      | (Inr x, t, s') \<Rightarrow> (case f x s' of (r, t', s'') \<Rightarrow> (r, t @ t', s'')))"

text \<open>\<open>tryCatch m h\<close> is \<^verbatim>\<open>try { m } catch (err) { h(err) }\<close>.\<close>

definition tryCatch :: "('s, 'a) task \<Rightarrow> (thrown \<Rightarrow> ('s, 'a) task) \<Rightarrow> ('s, 'a) task" where
  "tryCatch m h =
     (\<lambda>s. case m s of
        (Inl e, t, s') \<Rightarrow> (case h e s' of (r, t', s'') \<Rightarrow> (r, t @ t', s''))
      | (Inr x, t, s') \<Rightarrow> (Inr x, t, s'))"

definition sleep :: "nat \<Rightarrow> ('s, unit) task" where
  "sleep ms = emit (Sleep ms)"

definition log :: "string list \<Rightarrow> ('s, unit) task" where
  "log args = emit (Console ConsoleLog args)"

definition warn :: "string list \<Rightarrow> ('s, unit) task" where
  "warn args = emit (Console ConsoleWarn args)"

definition error :: "string list \<Rightarrow> ('s, unit) task" where
  "error args = emit (Console ConsoleError args)"

section \<open>Retry executor\<close>

definition MAX_RETRIES :: nat where
  "MAX_RETRIES = 3"

definition RETRY_BASE_MS :: nat where
  "RETRY_BASE_MS = 500"

definition backoffDelay :: "nat \<Rightarrow> nat" where
  "backoffDelay attempt = RETRY_BASE_MS * 2 ^ attempt"

text \<open>The line \<^verbatim>\<open>withRetries\<close> prints when attempt number \<open>attempt\<close> (from 0) has thrown.\<close>

definition retryWarningText :: "string \<Rightarrow> nat \<Rightarrow> thrown \<Rightarrow> string" where
  "retryWarningText label attempt err =
     ''Fallo en '' @ label @ '' (intento '' @ showNat (attempt + 1) @ ''/'' @
     showNat MAX_RETRIES @ ''): '' @ errMsg err @ ''. Reintentando en '' @
     showNat (backoffDelay attempt) @ ''ms...''"

definition retryWarning :: "string \<Rightarrow> nat \<Rightarrow> thrown \<Rightarrow> event" where
  "retryWarning label attempt err = Console ConsoleWarn [retryWarningText label attempt err]"

text \<open>
  \<^verbatim>\<open>withRetries(fn, label)\<close>, lines 126-140: the \<^verbatim>\<open>for\<close> loop from its variables
  \<open>attempt\<close> and \<open>lastErr\<close>. A return of \<open>fn\<close> leaves the loop; a throw is stored, reported,
  slept on, and the loop goes on; after the loop the stored value is thrown.
\<close>

function withRetries_loop ::
  "('s, 'a) task \<Rightarrow> string \<Rightarrow> nat \<Rightarrow> thrown \<Rightarrow> ('s, 'a) task" where
  "withRetries_loop fn label attempt lastErr s =
     (if attempt < MAX_RETRIES then
        (case fn s of
           (Inr v, t, s') \<Rightarrow> (Inr v, t, s')
         | (Inl err, t, s') \<Rightarrow>
             (case withRetries_loop fn label (attempt + 1) err s' of
                (r, t', s'') \<Rightarrow>
                  (r, t @ [retryWarning label attempt err, Sleep (backoffDelay attempt)] @ t', s'')))
      else (Inl lastErr, [], s))"
  by pat_completeness auto
termination
  by (relation "measure (\<lambda>(fn, label, attempt, lastErr, s). MAX_RETRIES - attempt)") auto

declare withRetries_loop.simps [simp del]

definition withRetries :: "('s, 'a) task \<Rightarrow> string \<Rightarrow> ('s, 'a) task" where
  "withRetries fn label = withRetries_loop fn label 0 Undefined"

text \<open>The suspensions in a trace, in order.\<close>

fun sleepOf :: "event \<Rightarrow> nat list" where
  "sleepOf (Sleep ms) = [ms]"
| "sleepOf ev = []"

definition sleeps :: "event list \<Rightarrow> nat list" where
  "sleeps t = concat (map sleepOf t)"

text \<open>
  How an operation behaves over its next invocations: \<open>behaves fn s os\<close> says that invoking
  \<open>fn\<close> repeatedly, the first time in state \<open>s\<close> and each further time in the state the
  previous invocation left, gives exactly the outcomes \<open>os\<close>, one after the other.
\<close>

fun behaves :: "('s, 'a) task \<Rightarrow> 's \<Rightarrow> ((thrown + 'a) \<times> event list \<times> 's) list \<Rightarrow> bool" where
  "behaves fn s [] = True"
| "behaves fn s (out # outs) = (fn s = out \<and> behaves fn (snd (snd out)) outs)"

text \<open>A failed invocation: the value thrown, the events it emitted, the state it left.\<close>

fun failure :: "thrown \<times> event list \<times> 's \<Rightarrow> (thrown + 'a) \<times> event list \<times> 's" where
  "failure (e, t, s') = (Inl e, t, s')"

text \<open>
  What one failed attempt adds to the trace of \<^verbatim>\<open>withRetries\<close>: the events of the
  attempt itself, the warning, and the suspension for \<open>backoffDelay attempt\<close> milliseconds.
\<close>

fun failedAttempt :: "string \<Rightarrow> nat \<times> thrown \<times> event list \<times> 's \<Rightarrow> event list" where
  "failedAttempt label (attempt, e, t, s') =
     t @ [retryWarning label attempt e, Sleep (backoffDelay attempt)]"

text \<open>Two operations used to run the retry executor on concrete inputs: one that throws
  on its first two invocations and then returns, and one that always throws.\<close>

definition flaky :: "(nat, string) task" where
  "flaky n =
     (if n < 2 then (Inl (Error ''Error'' ''timeout''), [], n + 1) else (Inr ''ok'', [], n + 1))"

definition alwaysBoom :: "(nat, string) task" where
  "alwaysBoom n = (Inl (Error ''Error'' ''boom''), [], n + 1)"

section \<open>Collaborators\<close>

text \<open>
  The messaging client (\<^verbatim>\<open>whatsapp-web.js\<close>), the HTTP fetcher (\<^verbatim>\<open>axios\<close>) and the base64
  encoder are not code of this repository: they are parameters. Each operation acts on the
  state \<open>'w\<close> of the outside world and returns or throws. The options the program passes
  are the same at every call (a 20 s timeout on both fetches, \<^verbatim>\<open>unsafeMime\<close>, a 25 MB limit
  and a \<^verbatim>\<open>User-Agent\<close> header naming the host); a collaborator that hits one of its limits
  throws.
\<close>

record http_response =
  headers :: "string \<Rightarrow> string option"
  body :: string

text \<open>The identity \<^verbatim>\<open>getNumberId\<close> resolves to; \<^verbatim>\<open>null\<close> is \<open>None\<close>.\<close>

record wid =
  serialized :: string

record 'w collaborators =
  MessageMedia_fromUrl :: "string \<Rightarrow> 'w \<Rightarrow> (thrown + media) \<times> 'w"
  axios_get :: "string \<Rightarrow> 'w \<Rightarrow> (thrown + http_response) \<times> 'w"
  client_getNumberId :: "string \<Rightarrow> 'w \<Rightarrow> (thrown + wid option) \<times> 'w"
  client_getChatById :: "string \<Rightarrow> 'w \<Rightarrow> (thrown + unit) \<times> 'w"
  client_sendMessage :: "string \<Rightarrow> content \<Rightarrow> 'w \<Rightarrow> (thrown + unit) \<times> 'w"
  base64 :: "string \<Rightarrow> string"

text \<open>An invocation of a collaborator, recorded in the trace.\<close>

definition call :: "event \<Rightarrow> ('w \<Rightarrow> (thrown + 'a) \<times> 'w) \<Rightarrow> ('w, 'a) task" where
  "call ev f = (\<lambda>w. case f w of (r, w') \<Rightarrow> (r, [ev], w'))"

text \<open>An optional string of a JSON body is truthy when it is present and not empty.\<close>

definition truthy :: "string option \<Rightarrow> bool" where
  "truthy v = (case v of None \<Rightarrow> False | Some x \<Rightarrow> x \<noteq> [])"

section \<open>Media resolver\<close>

text \<open>
  \<^verbatim>\<open>s.split(sep)\<close> for a one-character separator: the pieces between the occurrences of
  \<open>sep\<close>; never empty (\<^verbatim>\<open>''.split('/')\<close> is \<^verbatim>\<open>['']\<close>).
\<close>

fun splitOn :: "char \<Rightarrow> string \<Rightarrow> string list" where
  "splitOn sep [] = [[]]"
| "splitOn sep (c # cs) =
     (if c = sep then [] # splitOn sep cs
      else (c # hd (splitOn sep cs)) # tl (splitOn sep cs))"

text \<open>\<^verbatim>\<open>imageUrl.split('/').pop().split('?')[0] || 'image'\<close>\<close>

definition urlFilename :: "string \<Rightarrow> string" where
  "urlFilename imageUrl =
     (let piece = hd (splitOn (CHR ''?'') (last (splitOn (CHR ''/'') imageUrl)))
      in if piece = [] then ''image'' else piece)"

text \<open>\<^verbatim>\<open>resp.headers['content-type'] || 'image/jpeg'\<close>\<close>

definition contentTypeOf :: "http_response \<Rightarrow> string" where
  "contentTypeOf resp =
     (case headers resp ''content-type'' of
        None \<Rightarrow> ''image/jpeg''
      | Some h \<Rightarrow> if h = [] then ''image/jpeg'' else h)"

text \<open>\<^verbatim>\<open>buildMediaFromUrl(imageUrl)\<close>, lines 96-123.\<close>

definition buildMediaFromUrl :: "'w collaborators \<Rightarrow> string \<Rightarrow> ('w, media) task" where
  "buildMediaFromUrl c imageUrl =
     tryCatch
       (call (FromUrl imageUrl) (MessageMedia_fromUrl c imageUrl))
       (\<lambda>err.
          andThen (warn [''fromUrl fall'' @ [CHR 0xC3, CHR 0xB3] @ '', usando fallback manual:'',
                         errMsg err]) (\<lambda>_.
          tryCatch
            (andThen (call (AxiosGet imageUrl) (axios_get c imageUrl)) (\<lambda>resp.
               ret \<lparr>mimetype = contentTypeOf resp,
                    data = base64 c (body resp),
                    filename = Some (urlFilename imageUrl)\<rparr>))
            (\<lambda>err. throw (Error ''Error''
                             (''No se pudo descargar la imagen: '' @ errMsg err)))))"

text \<open>The trace of a resolution whose first path threw \<open>e\<close>: the call, the warning, and the
  plain fetch.\<close>

definition fallbackTrace :: "string \<Rightarrow> thrown \<Rightarrow> event list" where
  "fallbackTrace url e =
     [FromUrl url,
      Console ConsoleWarn
        [''fromUrl fall'' @ [CHR 0xC3, CHR 0xB3] @ '', usando fallback manual:'', errMsg e],
      AxiosGet url]"

section \<open>Bulk dispatcher\<close>

datatype status = Sent | SentWithWarning | Failed

text \<open>An element of \<^verbatim>\<open>results\<close>: \<^verbatim>\<open>{ number, status, reason?, warning? }\<close>.\<close>

record entry =
  number :: string
  status :: status
  reason :: "string option"
  warning :: "string option"

text \<open>The loop runs in the outside world together with its array \<^verbatim>\<open>results\<close>; the calls to
  the client act on the world alone (\<open>lift\<close>).\<close>

record 'w dstate =
  world :: 'w
  results :: "entry list"

definition lift :: "('w, 'a) task \<Rightarrow> ('w dstate, 'a) task" where
  "lift m = (\<lambda>s. case m (world s) of (r, t, w') \<Rightarrow> (r, t, s\<lparr>world := w'\<rparr>))"

text \<open>\<^verbatim>\<open>results.push(e)\<close>\<close>

definition push :: "entry \<Rightarrow> ('w dstate, unit) task" where
  "push e = (\<lambda>s. (Inr (), [], s\<lparr>results := results s @ [e]\<rparr>))"

definition invalidNumber :: string where
  "invalidNumber = ''N'' @ [CHR 0xC3, CHR 0xBA] @ ''mero inv'' @ [CHR 0xC3, CHR 0xA1] @ ''lido''"

definition noWhatsApp :: string where
  "noWhatsApp = ''El n'' @ [CHR 0xC3, CHR 0xBA] @ ''mero no tiene WhatsApp''"

definition serializeBug :: string where
  "serializeBug = ''Bug de serializaci'' @ [CHR 0xC3, CHR 0xB3] @ ''n en wwebjs''"

text \<open>Lines 308-312: the media with its caption if there is a media, else the text if there
  is one, else nothing.\<close>

definition sendContent ::
  "'w collaborators \<Rightarrow> string \<Rightarrow> media option \<Rightarrow> string option \<Rightarrow> string option
     \<Rightarrow> ('w, unit) task" where
  "sendContent c chatId media caption text' =
     (case media of
        Some m \<Rightarrow>
          withRetries
            (call (SendMessage chatId (MediaContent m caption))
                  (client_sendMessage c chatId (MediaContent m caption)))
            ''sendMessage(media)''
      | None \<Rightarrow>
          (case text' of
             None \<Rightarrow> ret ()
           | Some txt \<Rightarrow>
               if txt \<noteq> [] then
                 withRetries
                   (call (SendMessage chatId (TextContent txt))
                         (client_sendMessage c chatId (TextContent txt)))
                   ''sendMessage(text)''
               else ret ()))"

text \<open>Lines 315-324: what the handler of a failed send does with the thrown value.\<close>

definition classifySendError :: "string \<Rightarrow> thrown \<Rightarrow> ('w dstate, unit) task" where
  "classifySendError normalized err =
     (let msg = errMsg err in
      if strIncludes msg ''getMessageModel'' \<or> strIncludes msg ''serialize'' then
        andThen (warn [[CHR 0xE2, CHR 0x9A, CHR 0xA0, CHR 0xEF, CHR 0xB8, CHR 0x8F] @
                       '' Enviado a '' @ normalized @
                       '', pero con warning de serialize (bug wwebjs)'']) (\<lambda>_.
        push \<lparr>number = normalized, status = SentWithWarning, reason = None,
              warning = Some serializeBug\<rparr>)
      else
        andThen (error [[CHR 0xE2, CHR 0x9D, CHR 0x8C] @ '' Error al enviar a '' @
                        normalized @ '':'', msg]) (\<lambda>_.
        push \<lparr>number = normalized, status = Failed, reason = Some msg, warning = None\<rparr>))"

text \<open>Line 305: \<^verbatim>\<open>try { await client.getChatById(chatId); } catch (_) {}\<close>\<close>

definition prewarm :: "'w collaborators \<Rightarrow> string \<Rightarrow> ('w, unit) task" where
  "prewarm c chatId =
     tryCatch (call (GetChatById chatId) (client_getChatById c chatId)) (\<lambda>_. ret ())"

text \<open>Lines 302-327: the steps for a recipient whose identity was found.\<close>

definition deliver ::
  "'w collaborators \<Rightarrow> media option \<Rightarrow> string option \<Rightarrow> string option \<Rightarrow> string \<Rightarrow> wid
     \<Rightarrow> ('w dstate, unit) task" where
  "deliver c media caption text' normalized numberId =
     (let chatId = serialized numberId in
      andThen (lift (prewarm c chatId)) (\<lambda>_.
      andThen (tryCatch
                 (andThen (lift (sendContent c chatId media caption text')) (\<lambda>_.
                  andThen (log [[CHR 0xE2, CHR 0x9C, CHR 0x85] @ '' Enviado a: '' @ normalized]) (\<lambda>_.
                  push \<lparr>number = normalized, status = Sent, reason = None, warning = None\<rparr>)))
                 (classifySendError normalized)) (\<lambda>_.
      sleep 150)))"

text \<open>Line 296: \<^verbatim>\<open>withRetries(() => client.getNumberId(normalized), 'getNumberId')\<close>\<close>

definition lookupNumber :: "'w collaborators \<Rightarrow> string \<Rightarrow> ('w, wid option) task" where
  "lookupNumber c normalized =
     withRetries (call (GetNumberId normalized) (client_getNumberId c normalized)) ''getNumberId''"

text \<open>Lines 288-332: the body of the loop for one element \<open>raw\<close> of \<^verbatim>\<open>numbers\<close>.\<close>

definition processRecipient ::
  "string \<Rightarrow> 'w collaborators \<Rightarrow> media option \<Rightarrow> string option \<Rightarrow> string option \<Rightarrow> string
     \<Rightarrow> ('w dstate, unit) task" where
  "processRecipient cc c media caption text' raw =
     (let normalized = normalizeNumber cc raw in
      if \<not> truthy normalized then
        push \<lparr>number = raw, status = Failed, reason = Some invalidNumber, warning = None\<rparr>
      else
        tryCatch
          (andThen (lift (lookupNumber c (the normalized))) (\<lambda>numberId.
             case numberId of
               None \<Rightarrow>
                 push \<lparr>number = the normalized, status = Failed, reason = Some noWhatsApp,
                       warning = None\<rparr>
             | Some nid \<Rightarrow> deliver c media caption text' (the normalized) nid))
          (\<lambda>err.
             let msg = errMsg err in
             andThen (error [[CHR 0xE2, CHR 0x9D, CHR 0x8C] @ '' Error previo a enviar a '' @
                             the normalized @ '':'', msg]) (\<lambda>_.
             push \<lparr>number = the normalized, status = Failed, reason = Some msg,
                   warning = None\<rparr>)))"

text \<open>\<^verbatim>\<open>for (const raw of numbers) { ... }\<close>\<close>

fun dispatchLoop ::
  "string \<Rightarrow> 'w collaborators \<Rightarrow> media option \<Rightarrow> string option \<Rightarrow> string option
     \<Rightarrow> string list \<Rightarrow> ('w dstate, unit) task" where
  "dispatchLoop cc c media caption text' [] = ret ()"
| "dispatchLoop cc c media caption text' (raw # rest) =
     andThen (processRecipient cc c media caption text' raw) (\<lambda>_.
       dispatchLoop cc c media caption text' rest)"

section \<open>The endpoint POST /send-whatsapp\<close>

datatype json_body =
    ErrorBody string "string option"
  | ReportBody string "entry list"

record response =
  code :: nat
  payload :: json_body

text \<open>Lines 335-341: the counts and the answer, with the default status 200.\<close>

definition report :: "entry list \<Rightarrow> response" where
  "report rs =
     (let sent = length (filter (\<lambda>r. status r = Sent \<or> status r = SentWithWarning) rs);
          failed = filter (\<lambda>r. status r = Failed) rs
      in \<lparr>code = 200,
          payload = ReportBody (''Mensajes enviados: '' @ showNat sent @ '', fallidos: '' @
                                showNat (length failed)) rs\<rparr>)"

text \<open>Lines 275-282: \<open>Inl\<close> is the early answer of the \<^verbatim>\<open>catch\<close>, \<open>Inr\<close> the value of
  \<^verbatim>\<open>media\<close> the handler goes on with.\<close>

definition prepareMedia ::
  "'w collaborators \<Rightarrow> string option \<Rightarrow> ('w, response + media option) task" where
  "prepareMedia c imageUrl =
     (if truthy imageUrl then
        tryCatch
          (andThen (withRetries (buildMediaFromUrl c (the imageUrl)) ''buildMediaFromUrl'')
                   (\<lambda>m. ret (Inr (Some m))))
          (\<lambda>err. ret (Inl \<lparr>code = 400,
                             payload = ErrorBody ''No se pudo preparar la imagen''
                                         (Some (errMsg err))\<rparr>))
      else ret (Inr None))"

text \<open>Lines 284-333: \<^verbatim>\<open>const results = []\<close>, the loop, and the array it leaves.\<close>

definition collectResults :: "('w dstate, unit) task \<Rightarrow> ('w, entry list) task" where
  "collectResults m =
     (\<lambda>w. case m \<lparr>world = w, results = []\<rparr> of
        (Inl e, t, s) \<Rightarrow> (Inl e, t, world s)
      | (Inr u, t, s) \<Rightarrow> (Inr (results s), t, world s))"

text \<open>
  The body of a request, as the handler destructures it (the field \<^verbatim>\<open>text\<close> is written
  \<open>text'\<close>). \<open>numbers\<close> is \<open>None\<close> when the
  field is missing or is not an array; the other fields are \<open>None\<close> when missing.
\<close>

record send_request =
  numbers :: "string list option"
  imageUrl :: "string option"
  caption :: "string option"
  text' :: "string option"

text \<open>
  The handler, lines 262-342. \<open>cc\<close> is the constant \<^verbatim>\<open>DEFAULT_COUNTRY_CODE\<close>, \<open>clientReady\<close>
  the value of the variable of that name when the request arrives, \<open>reqBody\<close> the parsed
  body (\<open>None\<close> when there is none: \<^verbatim>\<open>req.body || {}\<close>).
\<close>

definition sendWhatsapp ::
  "string \<Rightarrow> 'w collaborators \<Rightarrow> bool \<Rightarrow> send_request option \<Rightarrow> ('w, response) task" where
  "sendWhatsapp cc c clientReady reqBody =
     (let req = (case reqBody of
                   None \<Rightarrow> \<lparr>numbers = None, imageUrl = None, caption = None, text' = None\<rparr>
                 | Some b \<Rightarrow> b)
      in
      if numbers req = None \<or> numbers req = Some [] then
        ret \<lparr>code = 400,
             payload = ErrorBody (''Faltan par'' @ [CHR 0xC3, CHR 0xA1] @ ''metros: numbers[]'')
                         None\<rparr>
      else if \<not> clientReady then
        ret \<lparr>code = 503,
             payload = ErrorBody (''El cliente de WhatsApp a'' @ [CHR 0xC3, CHR 0xBA] @
                                  ''n no est'' @ [CHR 0xC3, CHR 0xA1] @ '' listo.'') None\<rparr>
      else if \<not> truthy (imageUrl req) \<and> \<not> truthy (text' req) then
        ret \<lparr>code = 400, payload = ErrorBody ''Debes enviar imageUrl o text.'' None\<rparr>
      else
        andThen (prepareMedia c (imageUrl req)) (\<lambda>prepared.
          case prepared of
            Inl early \<Rightarrow> ret early
          | Inr media \<Rightarrow>
              andThen (collectResults
                         (dispatchLoop cc c media (caption req) (text' req) (the (numbers req))))
                      (\<lambda>rs. ret (report rs))))"

section \<open>Connection lifecycle\<close>

text \<open>
  What can happen to the session: the call of \<^verbatim>\<open>initClient()\<close> at start-up (line 349) and the
  rejection of its promise, the events of the messaging client, the firing of the
  supervisor's interval, the end of the suspension of a supervisor callback, the
  rejection of the \<^verbatim>\<open>initClient()\<close> such a callback awaits, and the fulfilment of a promise
  of \<^verbatim>\<open>client.initialize()\<close>, after which no statement of the program is left to run (the
  \<^verbatim>\<open>finally\<close> block of line 183 is empty). The time of a QR event is given with it.
\<close>

datatype lifecycle_event =
    Startup
  | StartupRejected thrown
  | QrEvent string nat
  | LoadingScreenEvent string string
  | ChangeStateEvent "string option"
  | ReadyEvent
  | AuthenticatedEvent
  | AuthFailureEvent string
  | DisconnectedEvent string
  | IntervalFires
  | SleepEnds
  | SupervisorInitRejected thrown
  | InitializeResolved

text \<open>
  What the lifecycle code has done, in order: it has started to handle an event, printed
  a line, drawn a QR code, invoked \<^verbatim>\<open>client.initialize()\<close>, set or cleared the
  interval, suspended a callback for some milliseconds.
\<close>

datatype mark =
    Handled lifecycle_event
  | Printed console "string list"
  | QrDrawn string
  | InitializeCalled
  | IntervalSet
  | IntervalCleared
  | Suspended nat

text \<open>
  The variables of lines 46-51. \<open>reconnectTimer\<close> is \<open>None\<close> for \<^verbatim>\<open>null\<close>, and an armed
  interval carries the counter \<^verbatim>\<open>retries\<close> of its callback. \<open>sleeping\<close> counts the supervisor
  callbacks suspended in \<^verbatim>\<open>sleep(delay)\<close>, and \<open>history\<close> is the list of marks so far.
\<close>

record session =
  clientReady :: bool
  clientState :: string
  reconnectTimer :: "nat option"
  lastQr :: "string option"
  lastQrAt :: "nat option"
  initializing :: bool
  sleeping :: nat
  history :: "mark list"















section \<open>A concrete outside world\<close>

text \<open>
  Collaborators to run the program on concrete inputs. The world is the list of messages
  the client has transmitted. \<^verbatim>\<open>fromUrl\<close> succeeds on the host \<^verbatim>\<open>cdn\<close> only; the plain
  fetch fails on the host \<^verbatim>\<open>down\<close>, answers without a content type on the host
  \<^verbatim>\<open>plain\<close> and with \<^verbatim>\<open>image/gif\<close> elsewhere; one number has no account and the lookup
  of another throws; the send to one chat transmits and then throws the serialization
  defect, and the send to another throws without transmitting.
\<close>

type_synonym outbox = "(string \<times> content) list"

definition demo :: "outbox collaborators" where
  "demo =
     \<lparr>MessageMedia_fromUrl = (\<lambda>url w.
        if startsWith url ''http://cdn/''
        then (Inr \<lparr>mimetype = ''image/png'', data = ''UE5H'', filename = None\<rparr>, w)
        else (Inl (Error ''Error'' ''fromUrl timeout''), w)),
      axios_get = (\<lambda>url w.
        if startsWith url ''http://down/'' then (Inl (Error ''Error'' ''ECONNREFUSED''), w)
        else if startsWith url ''http://plain/''
        then (Inr \<lparr>headers = Map.empty, body = ''JFIF''\<rparr>, w)
        else (Inr \<lparr>headers = [''content-type'' \<mapsto> ''image/gif''], body = ''GIF89a''\<rparr>, w)),
      client_getNumberId = (\<lambda>n w.
        if n = ''573000000000'' then (Inr None, w)
        else if n = ''573000000001'' then (Inl (Error ''Error'' ''Evaluation failed''), w)
        else (Inr (Some \<lparr>serialized = n @ ''@c.us''\<rparr>), w)),
      client_getChatById = (\<lambda>chatId w. (Inr (), w)),
      client_sendMessage = (\<lambda>chatId content w.
        if chatId = ''573009999999@c.us''
        then (Inl (Error ''TypeError'' ''Cannot read properties of undefined (reading serialize)''),
              w @ [(chatId, content)])
        else if chatId = ''573008888888@c.us'' then (Inl (Error ''Error'' ''Protocol error''), w)
        else (Inr (), w @ [(chatId, content)])),
      base64 = (\<lambda>bytes. bytes)\<rparr>"

section \<open>Notions used to state the properties\<close>

text \<open>\<open>emits P m\<close>: every event of every run of \<open>m\<close> satisfies \<open>P\<close>.\<close>

definition emits :: "(event \<Rightarrow> bool) \<Rightarrow> ('s, 'a) task \<Rightarrow> bool" where
  "emits P m = (\<forall>s r t s'. m s = (r, t, s') \<longrightarrow> list_all P t)"

text \<open>The \<^verbatim>\<open>number\<close> field of the entry of a recipient: the normalized number, and the raw
  string when there is none.\<close>

definition recipientKey :: "string \<Rightarrow> string \<Rightarrow> string" where
  "recipientKey cc raw = (case normalizeNumber cc raw of None \<Rightarrow> raw | Some n \<Rightarrow> n)"

text \<open>The entries the loop adds for the recipients \<open>ns\<close> when it starts in the world \<open>w\<close>, and the
  world it leaves.\<close>

definition entriesOf ::
  "string \<Rightarrow> 'w collaborators \<Rightarrow> media option \<Rightarrow> string option \<Rightarrow> string option
     \<Rightarrow> string list \<Rightarrow> 'w \<Rightarrow> entry list" where
  "entriesOf cc c media cap tx ns w =
     results (snd (snd (dispatchLoop cc c media cap tx ns \<lparr>world = w, results = []\<rparr>)))"

definition worldAfter ::
  "string \<Rightarrow> 'w collaborators \<Rightarrow> media option \<Rightarrow> string option \<Rightarrow> string option
     \<Rightarrow> string list \<Rightarrow> 'w \<Rightarrow> 'w" where
  "worldAfter cc c media cap tx ns w =
     world (snd (snd (dispatchLoop cc c media cap tx ns \<lparr>world = w, results = []\<rparr>)))"


text \<open>The answer of line 280.\<close>

definition imageFailed :: "thrown \<Rightarrow> response" where
  "imageFailed err =
     \<lparr>code = 400, payload = ErrorBody ''No se pudo preparar la imagen'' (Some (errMsg err))\<rparr>"

text \<open>The media \<^verbatim>\<open>fromUrl\<close> gives on the host \<^verbatim>\<open>cdn\<close>, a request with one recipient, and the
  trace of a resolution that fails three times on the host \<^verbatim>\<open>down\<close>.\<close>

definition promo :: media where
  "promo = \<lparr>mimetype = ''image/png'', data = ''UE5H'', filename = None\<rparr>"

definition promoRequest :: "string \<Rightarrow> string option \<Rightarrow> send_request" where
  "promoRequest url tx =
     \<lparr>numbers = Some [''3001234567''], imageUrl = Some url, caption = Some ''Promo'', text' = tx\<rparr>"

definition downTrace :: "event list" where
  "downTrace =
     fallbackTrace ''http://down/x.png'' (Error ''Error'' ''fromUrl timeout'') @
     [retryWarning ''buildMediaFromUrl'' 0
        (Error ''Error'' ''No se pudo descargar la imagen: ECONNREFUSED''), Sleep 500] @
     fallbackTrace ''http://down/x.png'' (Error ''Error'' ''fromUrl timeout'') @
     [retryWarning ''buildMediaFromUrl'' 1
        (Error ''Error'' ''No se pudo descargar la imagen: ECONNREFUSED''), Sleep 1000] @
     fallbackTrace ''http://down/x.png'' (Error ''Error'' ''fromUrl timeout'') @
     [retryWarning ''buildMediaFromUrl'' 2
        (Error ''Error'' ''No se pudo descargar la imagen: ECONNREFUSED''), Sleep 2000]"






section \<open>Properties of the number normalizer\<close>

lemma stripNonDigits_all_digits: "list_all isDigit (stripNonDigits raw)"
  by (simp add: stripNonDigits_def list_all_iff)

lemma stripNonDigits_empty_raw: "raw = [] \<Longrightarrow> stripNonDigits raw = []"
  by (simp add: stripNonDigits_def)

text \<open>
  Claim C1. For every raw recipient string, \<open>normalizeNumber\<close> works on the string obtained
  by deleting every non-digit character. If that digit string has at least 11 characters it
  is the result, unchanged. If it has 8 to 10 characters and a default country prefix is
  configured (the constant is not empty), the result is the prefix followed by the digits.
  If it has fewer than 8 characters (the empty string included) the result is
  \<^verbatim>\<open>null\<close>, whatever the prefix.
\<close>

theorem normalizeNumber_cases:
  "(length (stripNonDigits raw) \<ge> 11 \<longrightarrow>
      normalizeNumber (DEFAULT_COUNTRY_CODE env) raw = Some (stripNonDigits raw)) \<and>
   (8 \<le> length (stripNonDigits raw) \<and> length (stripNonDigits raw) \<le> 10 \<and>
      DEFAULT_COUNTRY_CODE env \<noteq> [] \<longrightarrow>
      normalizeNumber (DEFAULT_COUNTRY_CODE env) raw
        = Some (DEFAULT_COUNTRY_CODE env @ stripNonDigits raw)) \<and>
   (length (stripNonDigits raw) < 8 \<longrightarrow>
      normalizeNumber (DEFAULT_COUNTRY_CODE env) raw = None)"
proof (cases "raw = []")
  case True
  then show ?thesis
    by (simp add: normalizeNumber_def stripNonDigits_empty_raw)
next
  case False
  then show ?thesis
    by (auto simp add: normalizeNumber_def Let_def)
qed

theorem normalizeNumber_cases_witness:
  "normalizeNumber (DEFAULT_COUNTRY_CODE (Some ''57'')) ''+57 (300) 123-4567'' = Some ''573001234567'' \<and>
   normalizeNumber (DEFAULT_COUNTRY_CODE (Some ''57'')) ''300 123 4567'' = Some ''573001234567'' \<and>
   normalizeNumber (DEFAULT_COUNTRY_CODE (Some ''57'')) ''12-34-567'' = None \<and>
   normalizeNumber (DEFAULT_COUNTRY_CODE None) ''12-34-567'' = None"
  using normalizeNumber_cases [of "''+57 (300) 123-4567''" "Some ''57''"]
        normalizeNumber_cases [of "''300 123 4567''" "Some ''57''"]
        normalizeNumber_cases [of "''12-34-567''" "Some ''57''"]
        normalizeNumber_cases [of "''12-34-567''" None]
  by (simp add: stripNonDigits_def isDigit_def DEFAULT_COUNTRY_CODE_def)

section \<open>Properties of the retry executor\<close>

lemma zip_upt_Cons: "zip [a..<a + Suc n] (f # fs) = (a, f) # zip [Suc a..<Suc a + n] fs"
  by (simp add: upt_conv_Cons)

text \<open>The loop entered at \<open>attempt\<close> with enough budget left for the failures ahead.\<close>

lemma withRetries_loop_success:
  "behaves fn s (map failure fails @ [(Inr v, tv, sv)]) \<Longrightarrow>
   attempt + length fails < MAX_RETRIES \<Longrightarrow>
   withRetries_loop fn label attempt lastErr s =
     (Inr v,
      concat (map (failedAttempt label) (zip [attempt..<attempt + length fails] fails)) @ tv,
      sv)"
proof (induction fails arbitrary: attempt lastErr s)
  case Nil
  then show ?case by (simp add: withRetries_loop.simps [of fn label attempt])
next
  case (Cons f fs)
  obtain e t s' where f: "f = (e, t, s')" by (cases f) auto
  from Cons.prems f have call: "fn s = (Inl e, t, s')"
    and rest: "behaves fn s' (map failure fs @ [(Inr v, tv, sv)])"
    by simp_all
  from Cons.prems have lt: "attempt < MAX_RETRIES" and lt': "Suc attempt + length fs < MAX_RETRIES"
    by simp_all
  have ih: "withRetries_loop fn label (Suc attempt) e s' =
     (Inr v, concat (map (failedAttempt label) (zip [Suc attempt..<Suc attempt + length fs] fs)) @ tv, sv)"
    by (rule Cons.IH [OF rest lt'])
  have z: "zip [attempt..<attempt + length (f # fs)] (f # fs)
             = (attempt, f) # zip [Suc attempt..<Suc attempt + length fs] fs"
    using zip_upt_Cons [of attempt "length fs" f fs] by simp
  show ?case
    unfolding z
    by (simp add: withRetries_loop.simps [of fn label attempt] lt call ih f)
qed

text \<open>The loop entered at \<open>attempt\<close> when the failures ahead use up the budget exactly.\<close>

lemma withRetries_loop_exhausted:
  "behaves fn s (map failure fails) \<Longrightarrow> fails \<noteq> [] \<Longrightarrow>
   attempt + length fails = MAX_RETRIES \<Longrightarrow>
   withRetries_loop fn label attempt lastErr s =
     (Inl (fst (last fails)),
      concat (map (failedAttempt label) (zip [attempt..<attempt + length fails] fails)),
      snd (snd (last fails)))"
proof (induction fails arbitrary: attempt lastErr s)
  case Nil
  then show ?case by simp
next
  case (Cons f fs)
  obtain e t s' where f: "f = (e, t, s')" by (cases f) auto
  from Cons.prems f have call: "fn s = (Inl e, t, s')"
    and rest: "behaves fn s' (map failure fs)"
    by simp_all
  from Cons.prems have lt: "attempt < MAX_RETRIES" and eq': "Suc attempt + length fs = MAX_RETRIES"
    by simp_all
  have z: "zip [attempt..<attempt + length (f # fs)] (f # fs)
             = (attempt, f) # zip [Suc attempt..<Suc attempt + length fs] fs"
    using zip_upt_Cons [of attempt "length fs" f fs] by simp
  show ?case
  proof (cases "fs = []")
    case True
    with eq' have stop: "\<not> Suc attempt < MAX_RETRIES" by simp
    show ?thesis
      unfolding z using True
      by (simp add: withRetries_loop.simps [of fn label attempt]
            withRetries_loop.simps [of fn label "Suc attempt"] lt stop call f)
  next
    case False
    have ih: "withRetries_loop fn label (Suc attempt) e s' =
       (Inl (fst (last fs)),
        concat (map (failedAttempt label) (zip [Suc attempt..<Suc attempt + length fs] fs)),
        snd (snd (last fs)))"
      by (rule Cons.IH [OF rest False eq'])
    show ?thesis
      unfolding z using False
      by (simp add: withRetries_loop.simps [of fn label attempt] lt call ih f)
  qed
qed

lemma sleeps_append: "sleeps (t @ u) = sleeps t @ sleeps u"
  by (simp add: sleeps_def)

lemma sleeps_failedAttempt:
  "sleeps (failedAttempt label (attempt, e, t, s')) = sleeps t @ [RETRY_BASE_MS * 2 ^ attempt]"
  by (simp add: sleeps_def retryWarning_def backoffDelay_def)

lemma sleeps_failedAttempts:
  "sleeps (concat (map (failedAttempt label) afs)) =
     concat (map (\<lambda>(attempt, e, t, s'). sleeps t @ [RETRY_BASE_MS * 2 ^ attempt]) afs)"
proof (induction afs)
  case Nil
  show ?case by (simp add: sleeps_def)
next
  case (Cons af afs)
  obtain attempt e t s' where "af = (attempt, e, t, s')" by (cases af) auto
  with Cons show ?case
    by (simp add: sleeps_append sleeps_failedAttempt del: failedAttempt.simps)
qed

lemma startsWith_append: "startsWith (sub @ rest) sub"
  by (induction sub) auto

lemma strIncludes_startsWith: "startsWith s sub \<Longrightarrow> strIncludes s sub"
  by (cases s) (auto elim: startsWith.elims)

lemma strIncludes_prepend: "strIncludes s sub \<Longrightarrow> strIncludes (pre @ s) sub"
  by (induction pre) auto

lemma strIncludes_middle: "strIncludes (pre @ sub @ post) sub"
  by (rule strIncludes_prepend) (rule strIncludes_startsWith, rule startsWith_append)

lemma retryWarningText_label: "strIncludes (retryWarningText label attempt err) label"
  unfolding retryWarningText_def by (rule strIncludes_middle)

text \<open>
  Claim C2. Let an operation throw on its next \<open>k\<close> invocations (\<open>fails\<close> lists what each
  threw, emitted and left as state) and return \<open>v\<close> on the one after, with \<open>k\<close> below the
  budget \<open>MAX_RETRIES = 3\<close>. Then \<open>withRetries\<close> returns \<open>v\<close>, in the state that
  last invocation left. Its trace is, for each failed attempt in turn (numbered from 0), the
  attempt's own events, one warning and one suspension, followed by the events of the
  successful invocation: exactly \<open>k\<close> delayed retries. The suspension after failed attempt
  number \<open>attempt\<close> lasts \<open>RETRY_BASE_MS * 2 ^ attempt\<close> milliseconds, and these are
  the only suspensions added to those of the operation itself.
\<close>

theorem withRetries_fails_then_succeeds:
  assumes "length fails < MAX_RETRIES"
    and "behaves fn s (map failure fails @ [(Inr v, tv, sv)])"
  shows "withRetries fn label s =
           (Inr v, concat (map (failedAttempt label) (zip [0..<length fails] fails)) @ tv, sv) \<and>
         sleeps (fst (snd (withRetries fn label s))) =
           concat (map (\<lambda>(attempt, e, t, s'). sleeps t @ [RETRY_BASE_MS * 2 ^ attempt])
                       (zip [0..<length fails] fails)) @ sleeps tv"
proof -
  have run: "withRetries fn label s =
      (Inr v, concat (map (failedAttempt label) (zip [0..<length fails] fails)) @ tv, sv)"
    unfolding withRetries_def
    using withRetries_loop_success [of fn s fails v tv sv 0 label Undefined] assms by simp
  show ?thesis
    by (simp add: run sleeps_append sleeps_failedAttempts)
qed

theorem withRetries_fails_then_succeeds_witness:
  "length [(Error ''Error'' ''timeout'', [], Suc 0), (Error ''Error'' ''timeout'', [], 2)]
     < MAX_RETRIES \<and>
   behaves flaky 0
     (map failure [(Error ''Error'' ''timeout'', [], Suc 0), (Error ''Error'' ''timeout'', [], 2)]
        @ [(Inr ''ok'', [], 3)]) \<and>
   withRetries flaky ''op'' 0 =
     (Inr ''ok'',
      [retryWarning ''op'' 0 (Error ''Error'' ''timeout''), Sleep 500,
       retryWarning ''op'' 1 (Error ''Error'' ''timeout''), Sleep 1000],
      3) \<and>
   sleeps (fst (snd (withRetries flaky ''op'' 0))) = [500, 1000]"
  using withRetries_fails_then_succeeds
    [of "[(Error ''Error'' ''timeout'', [], Suc 0), (Error ''Error'' ''timeout'', [], 2)]"
        flaky 0 "''ok''" "[]" 3 "''op''"]
  by (simp add: MAX_RETRIES_def flaky_def RETRY_BASE_MS_def backoffDelay_def sleeps_def upt_rec
        retryWarning_def)

text \<open>
  Claim C3, as the code has it. Let an operation throw on each of its next \<open>MAX_RETRIES\<close>
  invocations. Then \<open>withRetries\<close> invokes it exactly that many times (the trace holds the
  events of each attempt, each followed by a warning and a suspension, and the final state
  is the one the last invocation left) and throws the value the last invocation threw,
  itself and unchanged: the thrown value is the same under every label. The label goes to
  the console only, in the warning printed after each failed attempt.
\<close>

theorem withRetries_exhausted:
  assumes "length fails = MAX_RETRIES"
    and "behaves fn s (map failure fails)"
  shows "withRetries fn label s =
           (Inl (fst (last fails)),
            concat (map (failedAttempt label) (zip [0..<MAX_RETRIES] fails)),
            snd (snd (last fails))) \<and>
         fst (withRetries fn label s) = fst (withRetries fn label' s) \<and>
         strIncludes (retryWarningText label attempt err) label"
proof -
  from assms(1) have ne: "fails \<noteq> []" by (auto simp: MAX_RETRIES_def)
  have run: "\<And>l. withRetries fn l s =
      (Inl (fst (last fails)),
       concat (map (failedAttempt l) (zip [0..<MAX_RETRIES] fails)),
       snd (snd (last fails)))"
    unfolding withRetries_def
    using withRetries_loop_exhausted [of fn s fails 0 _ Undefined] assms ne by simp
  show ?thesis
    by (simp add: run retryWarningText_label)
qed

theorem withRetries_exhausted_witness:
  "length [(Error ''Error'' ''boom'', [], Suc 0), (Error ''Error'' ''boom'', [], 2),
           (Error ''Error'' ''boom'', [], 3)] = MAX_RETRIES \<and>
   behaves alwaysBoom 0
     (map failure [(Error ''Error'' ''boom'', [], Suc 0), (Error ''Error'' ''boom'', [], 2),
                   (Error ''Error'' ''boom'', [], 3)]) \<and>
   withRetries alwaysBoom ''getNumberId'' 0 =
     (Inl (Error ''Error'' ''boom''),
      [retryWarning ''getNumberId'' 0 (Error ''Error'' ''boom''), Sleep 500,
       retryWarning ''getNumberId'' 1 (Error ''Error'' ''boom''), Sleep 1000,
       retryWarning ''getNumberId'' 2 (Error ''Error'' ''boom''), Sleep 2000],
      3)"
  using withRetries_exhausted
    [of "[(Error ''Error'' ''boom'', [], Suc 0), (Error ''Error'' ''boom'', [], 2),
          (Error ''Error'' ''boom'', [], 3)]" alwaysBoom 0 "''getNumberId''" "''op''" 0 Undefined]
  by (simp add: MAX_RETRIES_def alwaysBoom_def backoffDelay_def RETRY_BASE_MS_def upt_rec
        numeral_2_eq_2)

text \<open>
  Claim C3 as stated fails: an operation that always throws an error with message
  \<^verbatim>\<open>boom\<close>, run under the label \<^verbatim>\<open>getNumberId\<close>, makes \<open>withRetries\<close> throw that very
  error, and the label occurs neither in its message nor in its name.
\<close>

theorem withRetries_label_counterexample:
  "fst (withRetries alwaysBoom ''getNumberId'' 0) = Inl (Error ''Error'' ''boom'') \<and>
   \<not> strIncludes (message (Error ''Error'' ''boom'')) ''getNumberId'' \<and>
   \<not> strIncludes (name (Error ''Error'' ''boom'')) ''getNumberId'' \<and>
   \<not> strIncludes (errMsg (Error ''Error'' ''boom'')) ''getNumberId''"
  by (simp add: withRetries_def withRetries_loop.simps alwaysBoom_def MAX_RETRIES_def)

section \<open>Properties of the media resolver\<close>














lemma buildMediaFromUrl_primary_throws:
  assumes "MessageMedia_fromUrl c url w = (Inl e, w1)"
  shows "buildMediaFromUrl c url w =
     (case axios_get c url w1 of
        (Inr resp, w2) \<Rightarrow>
          (Inr \<lparr>mimetype = contentTypeOf resp, data = base64 c (body resp),
                filename = Some (urlFilename url)\<rparr>,
           fallbackTrace url e, w2)
      | (Inl e2, w2) \<Rightarrow>
          (Inl (Error ''Error'' (''No se pudo descargar la imagen: '' @ errMsg e2)),
           fallbackTrace url e, w2))"
  using assms
  by (simp add: buildMediaFromUrl_def tryCatch_def andThen_def call_def warn_def emit_def
        ret_def throw_def fallbackTrace_def split: prod.splits sum.splits)




section \<open>Properties of the bulk dispatcher\<close>

subsection \<open>Events of composed tasks\<close>

lemma emitsI: "(\<And>s r t s'. m s = (r, t, s') \<Longrightarrow> list_all P t) \<Longrightarrow> emits P m"
  by (simp add: emits_def)

lemma emitsD: "emits P m \<Longrightarrow> m s = (r, t, s') \<Longrightarrow> list_all P t"
  unfolding emits_def by blast

lemma emits_ret: "emits P (ret x)" by (simp add: emits_def ret_def)
lemma emits_throw: "emits P (throw e)" by (simp add: emits_def throw_def)
lemma emits_emit: "P ev \<Longrightarrow> emits P (emit ev)" by (auto simp add: emits_def emit_def)
lemma emits_push: "emits P (push e)" by (auto simp add: emits_def push_def)
lemma emits_call: "P ev \<Longrightarrow> emits P (call ev f)"
  by (auto simp add: emits_def call_def split: prod.splits)

lemma emits_lift:
  assumes "emits P m"
  shows "emits P (lift m)"
proof (rule emitsI)
  fix s r t s' assume run: "lift m s = (r, t, s')"
  obtain r1 t1 w1 where m: "m (world s) = (r1, t1, w1)" by (cases "m (world s)")
  from run m have "t = t1" by (simp add: lift_def)
  with emitsD [OF assms m] show "list_all P t" by simp
qed

lemma emits_andThen:
  assumes "emits P m" and "\<And>x. emits P (f x)"
  shows "emits P (andThen m f)"
proof (rule emitsI)
  fix s r t s' assume run: "andThen m f s = (r, t, s')"
  obtain r1 t1 s1 where m: "m s = (r1, t1, s1)" by (cases "m s")
  have t1: "list_all P t1" using assms(1) m by (rule emitsD)
  show "list_all P t"
  proof (cases r1)
    case (Inl e)
    with run m t1 show ?thesis by (simp add: andThen_def)
  next
    case (Inr x)
    obtain r2 t2 s2 where f: "f x s1 = (r2, t2, s2)" by (cases "f x s1")
    have "list_all P t2" using assms(2) f by (rule emitsD)
    with run m Inr f t1 show ?thesis by (auto simp add: andThen_def)
  qed
qed

lemma emits_tryCatch:
  assumes "emits P m" and "\<And>e. emits P (h e)"
  shows "emits P (tryCatch m h)"
proof (rule emitsI)
  fix s r t s' assume run: "tryCatch m h s = (r, t, s')"
  obtain r1 t1 s1 where m: "m s = (r1, t1, s1)" by (cases "m s")
  have t1: "list_all P t1" using assms(1) m by (rule emitsD)
  show "list_all P t"
  proof (cases r1)
    case (Inr x)
    with run m t1 show ?thesis by (simp add: tryCatch_def)
  next
    case (Inl e)
    obtain r2 t2 s2 where h: "h e s1 = (r2, t2, s2)" by (cases "h e s1")
    have "list_all P t2" using assms(2) h by (rule emitsD)
    with run m Inl h t1 show ?thesis by (auto simp add: tryCatch_def)
  qed
qed

lemma emits_withRetries_loop:
  assumes fn: "emits P fn" and w: "\<And>a e. P (retryWarning label a e)" and sl: "\<And>d. P (Sleep d)"
  shows "list_all P (fst (snd (withRetries_loop fn label attempt lastErr s)))"
proof (induction "MAX_RETRIES - attempt" arbitrary: attempt lastErr s)
  case 0
  then have "\<not> attempt < MAX_RETRIES" by simp
  then show ?case by (simp add: withRetries_loop.simps [of fn label attempt])
next
  case (Suc k)
  then have lt: "attempt < MAX_RETRIES" and k: "k = MAX_RETRIES - (attempt + 1)" by simp_all
  obtain r t s1 where call: "fn s = (r, t, s1)" by (cases "fn s")
  have t: "list_all P t" using fn call by (rule emitsD)
  show ?case
  proof (cases r)
    case (Inr v)
    with lt call t show ?thesis by (simp add: withRetries_loop.simps [of fn label attempt])
  next
    case (Inl err)
    have ih: "list_all P (fst (snd (withRetries_loop fn label (attempt + 1) err s1)))"
      by (rule Suc.hyps(1) [OF k])
    obtain r2 t2 s2 where rest: "withRetries_loop fn label (attempt + 1) err s1 = (r2, t2, s2)"
      by (cases "withRetries_loop fn label (attempt + 1) err s1")
    with ih have "list_all P t2" by simp
    with lt call t Inl w sl rest show ?thesis
      by (simp add: withRetries_loop.simps [of fn label attempt])
  qed
qed

lemma emits_withRetries:
  assumes "emits P fn" and "\<And>a e. P (retryWarning label a e)" and "\<And>d. P (Sleep d)"
  shows "emits P (withRetries fn label)"
proof (rule emitsI)
  fix s r t s' assume "withRetries fn label s = (r, t, s')"
  then have "t = fst (snd (withRetries_loop fn label 0 Undefined s))"
    by (simp add: withRetries_def)
  with emits_withRetries_loop [OF assms, of 0 Undefined s] show "list_all P t" by simp
qed

lemma normalizeNumber_nonempty: "normalizeNumber cc raw \<noteq> Some []"
  by (auto simp add: normalizeNumber_def Let_def)

lemma prewarm_returns: "\<exists>t w'. prewarm c chatId w = (Inr (), t, w')"
  by (auto simp add: prewarm_def tryCatch_def call_def ret_def split: prod.splits sum.splits)

lemma deliver_shape:
  "\<exists>e t w'. number e = n \<and>
     (\<forall>rs. deliver c media cap tx n nid \<lparr>world = w, results = rs\<rparr> =
             (Inr (), t, \<lparr>world = w', results = rs @ [e]\<rparr>))"
proof -
  obtain t0 w0 where pw: "prewarm c (serialized nid) w = (Inr (), t0, w0)"
    using prewarm_returns [of c "serialized nid" w] by auto
  obtain r t1 w1 where send: "sendContent c (serialized nid) media cap tx w0 = (r, t1, w1)"
    by (cases "sendContent c (serialized nid) media cap tx w0")
  show ?thesis
  proof (cases r)
    case (Inr u)
    show ?thesis
      apply (rule exI [of _ "\<lparr>number = n, status = Sent, reason = None, warning = None\<rparr>"])
      apply (intro exI conjI allI)
       apply simp
      apply (simp add: deliver_def Let_def andThen_def tryCatch_def lift_def pw send Inr
          log_def emit_def push_def sleep_def)
      done
  next
    case (Inl err)
    show ?thesis
    proof (cases "strIncludes (errMsg err) ''getMessageModel'' \<or> strIncludes (errMsg err) ''serialize''")
      case True
      show ?thesis
        apply (rule exI [of _ "\<lparr>number = n, status = SentWithWarning, reason = None, warning = Some serializeBug\<rparr>"])
        apply (intro exI conjI allI)
         apply simp
        using True
        apply (simp add: deliver_def Let_def andThen_def tryCatch_def lift_def pw send Inl
            classifySendError_def warn_def emit_def push_def sleep_def)
        done
    next
      case False
      show ?thesis
        apply (rule exI [of _ "\<lparr>number = n, status = Failed, reason = Some (errMsg err), warning = None\<rparr>"])
        apply (intro exI conjI allI)
         apply simp
        using False
        apply (simp add: deliver_def Let_def andThen_def tryCatch_def lift_def pw send Inl
            classifySendError_def error_def emit_def push_def sleep_def)
        done
    qed
  qed
qed

lemma emits_sendContent:
  assumes "\<And>l a e. P (retryWarning l a e)" and "\<And>d. P (Sleep d)"
    and "\<And>ch x. (\<forall>m. media = Some m \<longrightarrow> x = MediaContent m cap) \<Longrightarrow> P (SendMessage ch x)"
  shows "emits P (sendContent c chatId media cap tx)"
  using assms
  by (auto simp add: sendContent_def split: option.splits
        intro!: emits_withRetries emits_call emits_ret)

lemma emits_prewarm:
  assumes "\<And>ch. P (GetChatById ch)"
  shows "emits P (prewarm c chatId)"
  using assms
  by (auto simp add: prewarm_def intro!: emits_tryCatch emits_call emits_ret)

lemma emits_lookupNumber:
  assumes "\<And>l a e. P (retryWarning l a e)" and "\<And>d. P (Sleep d)" and "\<And>n. P (GetNumberId n)"
  shows "emits P (lookupNumber c n)"
  using assms
  by (auto simp add: lookupNumber_def intro!: emits_withRetries emits_call)

lemma emits_processRecipient:
  assumes con: "\<And>l args. P (Console l args)" and sl: "\<And>d. P (Sleep d)"
    and look: "\<And>n. P (GetNumberId n)" and chat: "\<And>ch. P (GetChatById ch)"
    and send: "\<And>ch x. (\<forall>m. media = Some m \<longrightarrow> x = MediaContent m cap) \<Longrightarrow> P (SendMessage ch x)"
  shows "emits P (processRecipient cc c media cap tx raw)"
proof -
  have rw: "\<And>l a e. P (retryWarning l a e)" by (simp add: retryWarning_def con)
  have classify: "\<And>n e. emits P (classifySendError n e)"
    by (auto simp add: classifySendError_def Let_def warn_def error_def con
          intro!: emits_andThen emits_emit emits_push)
  have deliver: "\<And>n nid. emits P (deliver c media cap tx n nid)"
    unfolding deliver_def Let_def
    by (intro emits_andThen emits_tryCatch emits_lift emits_prewarm emits_sendContent
          emits_push classify)
       (auto simp add: log_def sleep_def con sl rw chat send intro!: emits_emit)
  show ?thesis
    unfolding processRecipient_def Let_def
    by (auto simp add: error_def con split: option.splits
          intro!: emits_push emits_tryCatch emits_andThen emits_lift emits_lookupNumber
                  emits_emit deliver rw sl look)
qed

lemma emits_dispatchLoop:
  assumes "\<And>l args. P (Console l args)" and "\<And>d. P (Sleep d)"
    and "\<And>n. P (GetNumberId n)" and "\<And>ch. P (GetChatById ch)"
    and "\<And>ch x. (\<forall>m. media = Some m \<longrightarrow> x = MediaContent m cap) \<Longrightarrow> P (SendMessage ch x)"
  shows "emits P (dispatchLoop cc c media cap tx ns)"
proof (induction ns)
  case Nil
  show ?case by (simp add: emits_ret)
next
  case (Cons raw rest)
  show ?case
    by (simp, intro emits_andThen emits_processRecipient assms Cons) 
qed

lemma emits_buildMediaFromUrl:
  assumes "\<And>l args. P (Console l args)" and "\<And>u. P (FromUrl u)" and "\<And>u. P (AxiosGet u)"
  shows "emits P (buildMediaFromUrl c url)"
  unfolding buildMediaFromUrl_def
  by (intro emits_tryCatch emits_andThen emits_call emits_ret emits_throw)
     (auto simp add: warn_def assms intro!: emits_emit)

subsection \<open>One entry per recipient\<close>

lemma processRecipient_shape:
  "\<exists>e t w'. number e = recipientKey cc raw \<and>
     (\<forall>rs. processRecipient cc c media cap tx raw \<lparr>world = w, results = rs\<rparr> =
             (Inr (), t, \<lparr>world = w', results = rs @ [e]\<rparr>))"
proof (cases "normalizeNumber cc raw")
  case None
  show ?thesis
    apply (rule exI [of _ "\<lparr>number = raw, status = Failed, reason = Some invalidNumber, warning = None\<rparr>"])
    apply (intro exI conjI allI)
     apply (simp add: recipientKey_def None)
    apply (simp add: processRecipient_def None truthy_def push_def)
    done
next
  case (Some n)
  with normalizeNumber_nonempty [of cc raw] have ne: "n \<noteq> []" by auto
  have key: "recipientKey cc raw = n" by (simp add: recipientKey_def Some)
  obtain r t w1 where look: "lookupNumber c n w = (r, t, w1)" by (cases "lookupNumber c n w")
  show ?thesis
  proof (cases r)
    case (Inl err)
    show ?thesis
      apply (rule exI [of _ "\<lparr>number = n, status = Failed, reason = Some (errMsg err), warning = None\<rparr>"])
      apply (intro exI conjI allI)
       apply (simp add: key)
      apply (simp add: processRecipient_def Some truthy_def ne tryCatch_def andThen_def lift_def
          look Inl error_def emit_def push_def Let_def)
      done
  next
    case (Inr found)
    show ?thesis
    proof (cases found)
      case None
      show ?thesis
        apply (rule exI [of _ "\<lparr>number = n, status = Failed, reason = Some noWhatsApp, warning = None\<rparr>"])
        apply (intro exI conjI allI)
         apply (simp add: key)
        apply (simp add: processRecipient_def Some truthy_def ne tryCatch_def andThen_def lift_def
            look Inr None push_def)
        done
    next
      case (Some nid)
      obtain e t2 w2 where e: "number e = n"
        and run: "\<And>rs. deliver c media cap tx n nid \<lparr>world = w1, results = rs\<rparr> =
                       (Inr (), t2, \<lparr>world = w2, results = rs @ [e]\<rparr>)"
        using deliver_shape [of n c media cap tx nid w1] by blast
      show ?thesis
        apply (rule exI [of _ e])
        apply (intro exI conjI allI)
         apply (simp add: key e)
        apply (simp add: processRecipient_def \<open>normalizeNumber cc raw = Some n\<close> truthy_def ne
            tryCatch_def andThen_def lift_def look Inr Some run)
        done
    qed
  qed
qed

lemma dispatchLoop_shape:
  "\<exists>es t w'. length es = length ns \<and> map number es = map (recipientKey cc) ns \<and>
     (\<forall>rs. dispatchLoop cc c media cap tx ns \<lparr>world = w, results = rs\<rparr> =
             (Inr (), t, \<lparr>world = w', results = rs @ es\<rparr>))"
proof (induction ns arbitrary: w)
  case Nil
  show ?case by (simp add: ret_def)
next
  case (Cons raw rest)
  obtain e t1 w1 where e: "number e = recipientKey cc raw"
    and one: "\<And>rs. processRecipient cc c media cap tx raw \<lparr>world = w, results = rs\<rparr> =
                    (Inr (), t1, \<lparr>world = w1, results = rs @ [e]\<rparr>)"
    using processRecipient_shape [of cc raw c media cap tx w] by blast
  obtain es t2 w2 where len: "length es = length rest"
    and keys: "map number es = map (recipientKey cc) rest"
    and more: "\<And>rs. dispatchLoop cc c media cap tx rest \<lparr>world = w1, results = rs\<rparr> =
                     (Inr (), t2, \<lparr>world = w2, results = rs @ es\<rparr>)"
    using Cons.IH [of w1] by blast
  show ?case
    apply (rule exI [of _ "e # es"])
    apply (rule exI [of _ "t1 @ t2"])
    apply (rule exI [of _ w2])
    apply (simp add: len keys e andThen_def one more)
    done
qed


lemma dispatchLoop_frame:
  "dispatchLoop cc c media cap tx ns s =
     (Inr (),
      fst (snd (dispatchLoop cc c media cap tx ns \<lparr>world = world s, results = []\<rparr>)),
      \<lparr>world = worldAfter cc c media cap tx ns (world s),
       results = results s @ entriesOf cc c media cap tx ns (world s)\<rparr>)"
proof -
  obtain w0 rs0 where s: "s = \<lparr>world = w0, results = rs0\<rparr>"
    by (cases s) auto
  obtain es t w' where run: "\<And>rs. dispatchLoop cc c media cap tx ns \<lparr>world = w0, results = rs\<rparr> =
             (Inr (), t, \<lparr>world = w', results = rs @ es\<rparr>)"
    using dispatchLoop_shape [of ns cc c media cap tx w0] by blast
  show ?thesis
    unfolding s by (simp add: run entriesOf_def worldAfter_def)
qed

lemma entriesOf_length: "length (entriesOf cc c media cap tx ns w) = length ns"
  using dispatchLoop_shape [of ns cc c media cap tx w]
  by (auto simp add: entriesOf_def)

lemma entriesOf_keys: "map number (entriesOf cc c media cap tx ns w) = map (recipientKey cc) ns"
  using dispatchLoop_shape [of ns cc c media cap tx w]
  by (auto simp add: entriesOf_def)

lemma dispatchLoop_append_run:
  "dispatchLoop cc c media cap tx (xs @ ys) s =
     andThen (dispatchLoop cc c media cap tx xs) (\<lambda>_. dispatchLoop cc c media cap tx ys) s"
proof (induction xs arbitrary: s)
  case Nil
  show ?case by (simp add: andThen_def ret_def split: prod.splits sum.splits)
next
  case (Cons x xs)
  show ?case
    by (simp add: andThen_def Cons.IH split: prod.splits sum.splits)
qed

lemma entriesOf_append:
  "entriesOf cc c media cap tx (xs @ ys) w =
     entriesOf cc c media cap tx xs w @
     entriesOf cc c media cap tx ys (worldAfter cc c media cap tx xs w)"
  apply (simp add: entriesOf_def [of _ _ _ _ _ "xs @ ys"] dispatchLoop_append_run andThen_def)
  apply (subst dispatchLoop_frame [of cc c media cap tx xs])
  apply simp
  apply (subst dispatchLoop_frame [of cc c media cap tx ys])
  apply simp
  done

lemma entriesOf_single:
  "entriesOf cc c media cap tx [raw] w =
     results (snd (snd (processRecipient cc c media cap tx raw \<lparr>world = w, results = []\<rparr>)))"
  using processRecipient_shape [of cc raw c media cap tx w]
  by (auto simp add: entriesOf_def andThen_def ret_def)

lemma entriesOf_invalid:
  "normalizeNumber cc raw = None \<Longrightarrow>
   entriesOf cc c media cap tx [raw] w =
     [\<lparr>number = raw, status = Failed, reason = Some invalidNumber, warning = None\<rparr>]"
  by (simp add: entriesOf_single processRecipient_def truthy_def push_def)

lemma entriesOf_no_account:
  assumes "normalizeNumber cc raw = Some n" and "fst (lookupNumber c n w) = Inr None"
  shows "entriesOf cc c media cap tx [raw] w =
     [\<lparr>number = n, status = Failed, reason = Some noWhatsApp, warning = None\<rparr>]"
proof -
  from assms(1) normalizeNumber_nonempty [of cc raw] have ne: "n \<noteq> []" by auto
  obtain t w1 where look: "lookupNumber c n w = (Inr None, t, w1)"
    using assms(2) by (cases "lookupNumber c n w") auto
  show ?thesis
    by (simp add: entriesOf_single processRecipient_def assms(1) truthy_def ne tryCatch_def
          andThen_def lift_def look push_def)
qed

lemma entriesOf_lookup_throws:
  assumes "normalizeNumber cc raw = Some n" and "fst (lookupNumber c n w) = Inl err"
  shows "entriesOf cc c media cap tx [raw] w =
     [\<lparr>number = n, status = Failed, reason = Some (errMsg err), warning = None\<rparr>]"
proof -
  from assms(1) normalizeNumber_nonempty [of cc raw] have ne: "n \<noteq> []" by auto
  obtain t w1 where look: "lookupNumber c n w = (Inl err, t, w1)"
    using assms(2) by (cases "lookupNumber c n w") auto
  show ?thesis
    by (simp add: entriesOf_single processRecipient_def assms(1) truthy_def ne tryCatch_def
          andThen_def lift_def look push_def error_def emit_def Let_def)
qed

text \<open>The equations that run the program on a concrete input.\<close>

lemmas run_simps = entriesOf_def worldAfter_def recipientKey_def processRecipient_def deliver_def
  sendContent_def prewarm_def lookupNumber_def classifySendError_def withRetries_def
  withRetries_loop.simps MAX_RETRIES_def normalizeNumber_def stripNonDigits_def isDigit_def
  truthy_def andThen_def tryCatch_def lift_def call_def push_def ret_def emit_def log_def
  warn_def error_def sleep_def demo_def Let_def

text \<open>
  Claim C4. The loop over the recipients never throws, whatever the collaborators do, and
  adds to \<^verbatim>\<open>results\<close> the entries \<open>entriesOf\<close> of its recipients: exactly one per recipient,
  in the order of the input, the entry of a recipient carrying its normalized number (its raw
  string when normalization fails). The entries of a list of recipients are those of the
  recipients before \<open>raw\<close>, then the one of \<open>raw\<close>, then those of the recipients after it, and
  these last are what the loop produces for them when started afresh in the world the earlier
  recipients left: whatever happened to an earlier recipient, the later ones are processed.
  A recipient that fails normalization, one whose lookup reports no account and one whose
  lookup throws on every attempt each get an entry with status \<open>Failed\<close>.
\<close>

theorem dispatchLoop_isolation:
  "fst (dispatchLoop cc c media cap tx ns s) = Inr () \<and>
   results (snd (snd (dispatchLoop cc c media cap tx ns s))) =
     results s @ entriesOf cc c media cap tx ns (world s) \<and>
   length (entriesOf cc c media cap tx ns w) = length ns \<and>
   map number (entriesOf cc c media cap tx ns w) = map (recipientKey cc) ns \<and>
   entriesOf cc c media cap tx (xs @ raw # ys) w =
     entriesOf cc c media cap tx xs w @
     entriesOf cc c media cap tx [raw] (worldAfter cc c media cap tx xs w) @
     entriesOf cc c media cap tx ys (worldAfter cc c media cap tx (xs @ [raw]) w) \<and>
   (normalizeNumber cc raw = None \<longrightarrow>
      entriesOf cc c media cap tx [raw] w =
        [\<lparr>number = raw, status = Failed, reason = Some invalidNumber, warning = None\<rparr>]) \<and>
   (normalizeNumber cc raw = Some n \<and> fst (lookupNumber c n w) = Inr None \<longrightarrow>
      entriesOf cc c media cap tx [raw] w =
        [\<lparr>number = n, status = Failed, reason = Some noWhatsApp, warning = None\<rparr>]) \<and>
   (normalizeNumber cc raw = Some n \<and> fst (lookupNumber c n w) = Inl err \<longrightarrow>
      entriesOf cc c media cap tx [raw] w =
        [\<lparr>number = n, status = Failed, reason = Some (errMsg err), warning = None\<rparr>])"
proof -
  have split3: "entriesOf cc c media cap tx (xs @ raw # ys) w =
     entriesOf cc c media cap tx xs w @
     entriesOf cc c media cap tx [raw] (worldAfter cc c media cap tx xs w) @
     entriesOf cc c media cap tx ys (worldAfter cc c media cap tx (xs @ [raw]) w)"
    using entriesOf_append [of cc c media cap tx "xs @ [raw]" ys w]
          entriesOf_append [of cc c media cap tx xs "[raw]" w]
    by simp
  show ?thesis
    using dispatchLoop_frame [of cc c media cap tx ns s] split3
    by (simp add: entriesOf_length entriesOf_keys entriesOf_invalid entriesOf_no_account
          entriesOf_lookup_throws)
qed

theorem dispatchLoop_isolation_witness:
  "normalizeNumber ''57'' ''12345'' = None \<and>
   normalizeNumber ''57'' ''3000000000'' = Some ''573000000000'' \<and>
   fst (lookupNumber demo ''573000000000'' []) = Inr None \<and>
   normalizeNumber ''57'' ''3000000001'' = Some ''573000000001'' \<and>
   fst (lookupNumber demo ''573000000001'' []) = Inl (Error ''Error'' ''Evaluation failed'') \<and>
   entriesOf ''57'' demo None None (Some ''hi'') [''300 123 4567'', ''3000000000'', ''3007654321''] [] =
     [\<lparr>number = ''573001234567'', status = Sent, reason = None, warning = None\<rparr>,
      \<lparr>number = ''573000000000'', status = Failed, reason = Some noWhatsApp, warning = None\<rparr>,
      \<lparr>number = ''573007654321'', status = Sent, reason = None, warning = None\<rparr>] \<and>
   entriesOf ''57'' demo None None (Some ''hi'') [''12345''] [] =
     [\<lparr>number = ''12345'', status = Failed, reason = Some invalidNumber, warning = None\<rparr>] \<and>
   entriesOf ''57'' demo None None (Some ''hi'') [''3000000001''] [] =
     [\<lparr>number = ''573000000001'', status = Failed, reason = Some ''Evaluation failed'',
       warning = None\<rparr>]"
  using dispatchLoop_isolation
          [of "''57''" demo None None "Some ''hi''"
              "[''300 123 4567'', ''3000000000'', ''3007654321'']" "\<lparr>world = [], results = []\<rparr>" "[]"
              "[''300 123 4567'']" "''3000000000''" "[''3007654321'']" "''573000000000''" Undefined]
        dispatchLoop_isolation
          [of "''57''" demo None None "Some ''hi''" "[]" "\<lparr>world = [], results = []\<rparr>" "[]"
              "[]" "''12345''" "[]" "[]" Undefined]
        dispatchLoop_isolation
          [of "''57''" demo None None "Some ''hi''" "[]" "\<lparr>world = [], results = []\<rparr>" "[]"
              "[]" "''3000000001''" "[]" "''573000000001''" "Error ''Error'' ''Evaluation failed''"]
  by (simp add: run_simps)

section \<open>Properties of the endpoint\<close>

subsection \<open>Validation\<close>

text \<open>
  Claim C5, as the code has it. A request whose \<^verbatim>\<open>numbers\<close> is missing, is not an array or
  is empty (a request without a body included) is answered 400 whatever the readiness of the
  session, with no effect on the world: the check comes before the session check. A request
  with a non-empty \<^verbatim>\<open>numbers\<close> and neither \<^verbatim>\<open>imageUrl\<close> nor \<^verbatim>\<open>text\<close> is answered 400 when
  the session is ready, and 503 when it is not: the session check comes first.
\<close>

theorem sendWhatsapp_validation:
  "(reqBody = None \<or> numbers (the reqBody) = None \<or> numbers (the reqBody) = Some [] \<longrightarrow>
      sendWhatsapp cc c ready reqBody w =
        (Inr \<lparr>code = 400,
              payload = ErrorBody (''Faltan par'' @ [CHR 0xC3, CHR 0xA1] @ ''metros: numbers[]'')
                          None\<rparr>, [], w)) \<and>
   (numbers req = Some ns \<and> ns \<noteq> [] \<and> \<not> truthy (imageUrl req) \<and> \<not> truthy (text' req) \<longrightarrow>
      sendWhatsapp cc c True (Some req) w =
        (Inr \<lparr>code = 400, payload = ErrorBody ''Debes enviar imageUrl o text.'' None\<rparr>, [], w) \<and>
      (\<exists>msg. sendWhatsapp cc c False (Some req) w =
        (Inr \<lparr>code = 503, payload = ErrorBody msg None\<rparr>, [], w)))"
  by (cases reqBody) (auto simp add: sendWhatsapp_def ret_def)

theorem sendWhatsapp_validation_witness:
  "sendWhatsapp ''57'' demo False None [] = sendWhatsapp ''57'' demo True None [] \<and>
   fst (sendWhatsapp ''57'' demo False
          (Some \<lparr>numbers = Some [], imageUrl = None, caption = None, text' = Some ''hi''\<rparr>) []) =
     Inr \<lparr>code = 400,
          payload = ErrorBody (''Faltan par'' @ [CHR 0xC3, CHR 0xA1] @ ''metros: numbers[]'') None\<rparr> \<and>
   fst (sendWhatsapp ''57'' demo True
          (Some \<lparr>numbers = Some [''3001234567''], imageUrl = None, caption = Some ''x'',
                 text' = Some ''''\<rparr>) []) =
     Inr \<lparr>code = 400, payload = ErrorBody ''Debes enviar imageUrl o text.'' None\<rparr>"
  using sendWhatsapp_validation [where reqBody = None and cc = "''57''" and c = demo
              and ready = False and w = "[]"]
        sendWhatsapp_validation [where reqBody = None and cc = "''57''" and c = demo
              and ready = True and w = "[]"]
        sendWhatsapp_validation
          [where reqBody = "Some \<lparr>numbers = Some [], imageUrl = None, caption = None,
                                   text' = Some ''hi''\<rparr>"
              and cc = "''57''" and c = demo and ready = False and w = "[]"]
        sendWhatsapp_validation
          [where req = "\<lparr>numbers = Some [''3001234567''], imageUrl = None, caption = Some ''x'',
                         text' = Some ''''\<rparr>"
              and cc = "''57''" and c = demo and w = "[]" and ns = "[''3001234567'']"]
  by (simp add: truthy_def)

text \<open>
  Claim C5 as stated fails: with the session not ready, a request with one recipient and
  neither \<^verbatim>\<open>imageUrl\<close> nor \<^verbatim>\<open>text\<close> is answered 503, not 400.
\<close>

theorem sendWhatsapp_not_ready_counterexample:
  "\<not> truthy (imageUrl \<lparr>numbers = Some [''3001234567''], imageUrl = None, caption = None,
                         text' = None\<rparr>) \<and>
   \<not> truthy (text' \<lparr>numbers = Some [''3001234567''], imageUrl = None, caption = None,
                      text' = None\<rparr>) \<and>
   sendWhatsapp ''57'' demo False
     (Some \<lparr>numbers = Some [''3001234567''], imageUrl = None, caption = None, text' = None\<rparr>) [] =
   (Inr \<lparr>code = 503,
         payload = ErrorBody (''El cliente de WhatsApp a'' @ [CHR 0xC3, CHR 0xBA] @
                              ''n no est'' @ [CHR 0xC3, CHR 0xA1] @ '' listo.'') None\<rparr>, [], [])"
  by (simp add: sendWhatsapp_def ret_def truthy_def)

subsection \<open>Classification of a failed send\<close>

text \<open>
  Claim C6. Let the identity of a recipient be found, and let the send (the retried
  \<^verbatim>\<open>sendMessage\<close>, run in the world the pre-warming of the chat left) throw \<open>err\<close>. Then
  the steps for that recipient end normally and add exactly one entry: with status
  \<open>SentWithWarning\<close> when the text of \<open>err\<close> contains \<^verbatim>\<open>getMessageModel\<close> or \<^verbatim>\<open>serialize\<close>,
  and otherwise with status \<open>Failed\<close> and the text of \<open>err\<close> as its reason.
\<close>

theorem deliver_send_error:
  assumes "prewarm c (serialized nid) (world s) = (r0, t0, w0)"
    and "sendContent c (serialized nid) media cap tx w0 = (Inl err, t, w1)"
  shows "fst (deliver c media cap tx normalized nid s) = Inr () \<and>
         snd (snd (deliver c media cap tx normalized nid s)) =
           \<lparr>world = w1,
            results = results s @
              [if strIncludes (errMsg err) ''getMessageModel'' \<or> strIncludes (errMsg err) ''serialize''
               then \<lparr>number = normalized, status = SentWithWarning, reason = None,
                     warning = Some serializeBug\<rparr>
               else \<lparr>number = normalized, status = Failed, reason = Some (errMsg err),
                     warning = None\<rparr>]\<rparr>"
proof -
  obtain ws rs where s: "s = \<lparr>world = ws, results = rs\<rparr>" by (cases s) auto
  from prewarm_returns [of c "serialized nid" "world s"] assms(1) have r0: "r0 = Inr ()" by auto
  show ?thesis
    using assms unfolding s r0
    by (simp add: deliver_def Let_def andThen_def tryCatch_def lift_def classifySendError_def
          warn_def error_def emit_def push_def sleep_def)
qed

theorem deliver_send_error_witness:
  "prewarm demo ''573009999999@c.us'' [] = (Inr (), [GetChatById ''573009999999@c.us''], []) \<and>
   fst (sendContent demo ''573009999999@c.us'' None None (Some ''hi'') []) =
     Inl (Error ''TypeError'' ''Cannot read properties of undefined (reading serialize)'') \<and>
   results (snd (snd (deliver demo None None (Some ''hi'') ''573009999999''
                        \<lparr>serialized = ''573009999999@c.us''\<rparr> \<lparr>world = [], results = []\<rparr>))) =
     [\<lparr>number = ''573009999999'', status = SentWithWarning, reason = None,
       warning = Some serializeBug\<rparr>] \<and>
   fst (sendContent demo ''573008888888@c.us'' None None (Some ''hi'') []) =
     Inl (Error ''Error'' ''Protocol error'') \<and>
   results (snd (snd (deliver demo None None (Some ''hi'') ''573008888888''
                        \<lparr>serialized = ''573008888888@c.us''\<rparr> \<lparr>world = [], results = []\<rparr>))) =
     [\<lparr>number = ''573008888888'', status = Failed, reason = Some ''Protocol error'',
       warning = None\<rparr>]"
  using deliver_send_error
          [of demo "\<lparr>serialized = ''573009999999@c.us''\<rparr>" "\<lparr>world = [], results = []\<rparr>"
              "Inr ()" "[GetChatById ''573009999999@c.us'']" "[]" None None "Some ''hi''"
              "Error ''TypeError'' ''Cannot read properties of undefined (reading serialize)''"
              "fst (snd (sendContent demo ''573009999999@c.us'' None None (Some ''hi'') []))"
              "snd (snd (sendContent demo ''573009999999@c.us'' None None (Some ''hi'') []))"
              "''573009999999''"]
        deliver_send_error
          [of demo "\<lparr>serialized = ''573008888888@c.us''\<rparr>" "\<lparr>world = [], results = []\<rparr>"
              "Inr ()" "[GetChatById ''573008888888@c.us'']" "[]" None None "Some ''hi''"
              "Error ''Error'' ''Protocol error''"
              "fst (snd (sendContent demo ''573008888888@c.us'' None None (Some ''hi'') []))"
              "snd (snd (sendContent demo ''573008888888@c.us'' None None (Some ''hi'') []))"
              "''573008888888''"]
  by (simp add: run_simps)

subsection \<open>The handler on an accepted request\<close>

lemma prepareMedia_with_url:
  "url \<noteq> [] \<Longrightarrow>
   prepareMedia c (Some url) w =
     (case withRetries (buildMediaFromUrl c url) ''buildMediaFromUrl'' w of
        (Inl err, t, w1) \<Rightarrow> (Inr (Inl (imageFailed err)), t, w1)
      | (Inr m, t, w1) \<Rightarrow> (Inr (Inr (Some m)), t, w1))"
  by (simp add: prepareMedia_def truthy_def tryCatch_def andThen_def ret_def imageFailed_def
        split: prod.splits sum.splits)

lemma prepareMedia_without_url:
  "\<not> truthy u \<Longrightarrow> prepareMedia c u w = (Inr (Inr None), [], w)"
  by (simp add: prepareMedia_def ret_def)

lemma collectResults_dispatchLoop:
  "collectResults (dispatchLoop cc c media cap tx ns) w =
     (Inr (entriesOf cc c media cap tx ns w),
      fst (snd (dispatchLoop cc c media cap tx ns \<lparr>world = w, results = []\<rparr>)),
      worldAfter cc c media cap tx ns w)"
proof -
  obtain es t w' where run: "dispatchLoop cc c media cap tx ns \<lparr>world = w, results = []\<rparr> =
             (Inr (), t, \<lparr>world = w', results = es\<rparr>)"
    using dispatchLoop_shape [of ns cc c media cap tx w] by fastforce
  show ?thesis
    by (simp add: collectResults_def entriesOf_def worldAfter_def run)
qed

lemma sendWhatsapp_accepted:
  assumes "numbers req = Some ns" and "ns \<noteq> []"
    and "truthy (imageUrl req) \<or> truthy (text' req)"
  shows "sendWhatsapp cc c True (Some req) w =
     (case prepareMedia c (imageUrl req) w of
        (Inl e, t, w1) \<Rightarrow> (Inl e, t, w1)
      | (Inr (Inl early), t, w1) \<Rightarrow> (Inr early, t, w1)
      | (Inr (Inr media), t, w1) \<Rightarrow>
          (Inr (report (entriesOf cc c media (caption req) (text' req) ns w1)),
           t @ fst (snd (dispatchLoop cc c media (caption req) (text' req) ns
                           \<lparr>world = w1, results = []\<rparr>)),
           worldAfter cc c media (caption req) (text' req) ns w1))"
  using assms
  by (auto simp add: sendWhatsapp_def andThen_def ret_def collectResults_dispatchLoop
        split: prod.splits sum.splits)


lemma sendWhatsapp_with_media:
  assumes "numbers req = Some ns" and "ns \<noteq> []"
    and "imageUrl req = Some url" and "url \<noteq> []"
  shows "sendWhatsapp cc c True (Some req) w =
     (case withRetries (buildMediaFromUrl c url) ''buildMediaFromUrl'' w of
        (Inl err, t, w1) \<Rightarrow>
          (Inr \<lparr>code = 400,
                payload = ErrorBody ''No se pudo preparar la imagen'' (Some (errMsg err))\<rparr>,
           t, w1)
      | (Inr m, t, w1) \<Rightarrow>
          (Inr (report (entriesOf cc c (Some m) (caption req) (text' req) ns w1)),
           t @ fst (snd (dispatchLoop cc c (Some m) (caption req) (text' req) ns
                           \<lparr>world = w1, results = []\<rparr>)),
           worldAfter cc c (Some m) (caption req) (text' req) ns w1))"
proof -
  have tr: "truthy (imageUrl req) \<or> truthy (text' req)"
    using assms(3,4) by (simp add: truthy_def)
  show ?thesis
    by (simp add: sendWhatsapp_accepted [OF assms(1,2) tr] assms(3)
          prepareMedia_with_url [OF assms(4)] imageFailed_def split: prod.splits sum.splits)
qed

text \<open>Runs in the concrete world.\<close>

lemma demo_build_down:
  "buildMediaFromUrl demo ''http://down/x.png'' w =
     (Inl (Error ''Error'' ''No se pudo descargar la imagen: ECONNREFUSED''),
      fallbackTrace ''http://down/x.png'' (Error ''Error'' ''fromUrl timeout''), w)"
  using buildMediaFromUrl_primary_throws
          [of demo "''http://down/x.png''" w "Error ''Error'' ''fromUrl timeout''" w]
  by (simp add: demo_def)

lemma demo_retry_down:
  "withRetries (buildMediaFromUrl demo ''http://down/x.png'') ''buildMediaFromUrl'' w =
     (Inl (Error ''Error'' ''No se pudo descargar la imagen: ECONNREFUSED''), downTrace, w)"
  using withRetries_loop_exhausted
          [of "buildMediaFromUrl demo ''http://down/x.png''" w
              "replicate 3
                 (Error ''Error'' ''No se pudo descargar la imagen: ECONNREFUSED'',
                  fallbackTrace ''http://down/x.png'' (Error ''Error'' ''fromUrl timeout''), w)"
              0 "''buildMediaFromUrl''" Undefined]
  by (simp add: withRetries_def demo_build_down MAX_RETRIES_def numeral_3_eq_3 downTrace_def
        backoffDelay_def RETRY_BASE_MS_def upt_rec numeral_2_eq_2)

lemma demo_retry_cdn:
  "withRetries (buildMediaFromUrl demo ''http://cdn/promo.png'') ''buildMediaFromUrl'' w =
     (Inr promo, [FromUrl ''http://cdn/promo.png''], w)"
  by (simp add: withRetries_def withRetries_loop.simps [of _ _ 0] MAX_RETRIES_def
        buildMediaFromUrl_def tryCatch_def call_def demo_def promo_def)

lemma demo_normalize: "normalizeNumber ''57'' ''3001234567'' = Some ''573001234567''"
  by (simp add: normalizeNumber_def stripNonDigits_def isDigit_def)

lemma demo_lookup:
  "lookupNumber demo ''573001234567'' w =
     (Inr (Some \<lparr>serialized = ''573001234567@c.us''\<rparr>), [GetNumberId ''573001234567''], w)"
  by (simp add: lookupNumber_def withRetries_def withRetries_loop.simps [of _ _ 0] MAX_RETRIES_def
        call_def demo_def)

lemma demo_send_media:
  "sendContent demo ''573001234567@c.us'' (Some promo) cap tx w =
     (Inr (), [SendMessage ''573001234567@c.us'' (MediaContent promo cap)],
      w @ [(''573001234567@c.us'', MediaContent promo cap)])"
  by (simp add: sendContent_def withRetries_def withRetries_loop.simps [of _ _ 0] MAX_RETRIES_def
        call_def demo_def)

lemma demo_prewarm: "prewarm demo chatId w = (Inr (), [GetChatById chatId], w)"
  by (simp add: prewarm_def tryCatch_def call_def demo_def)

lemma demo_loop_promo:
  "dispatchLoop ''57'' demo (Some promo) cap tx [''3001234567''] \<lparr>world = [], results = []\<rparr> =
     (Inr (),
      [GetNumberId ''573001234567'', GetChatById ''573001234567@c.us'',
       SendMessage ''573001234567@c.us'' (MediaContent promo cap),
       Console ConsoleLog [[CHR 0xE2, CHR 0x9C, CHR 0x85] @ '' Enviado a: 573001234567''],
       Sleep 150],
      \<lparr>world = [(''573001234567@c.us'', MediaContent promo cap)],
       results = [\<lparr>number = ''573001234567'', status = Sent, reason = None, warning = None\<rparr>]\<rparr>)"
  by (simp add: processRecipient_def demo_normalize truthy_def tryCatch_def andThen_def lift_def
        demo_lookup deliver_def demo_prewarm demo_send_media log_def emit_def push_def sleep_def
        ret_def Let_def)

lemma demo_entries_promo:
  "entriesOf ''57'' demo (Some promo) cap tx [''3001234567''] [] =
     [\<lparr>number = ''573001234567'', status = Sent, reason = None, warning = None\<rparr>]"
  by (simp only: entriesOf_def demo_loop_promo) simp

lemma demo_world_promo:
  "worldAfter ''57'' demo (Some promo) cap tx [''3001234567''] [] =
     [(''573001234567@c.us'', MediaContent promo cap)]"
  by (simp only: worldAfter_def demo_loop_promo) simp

subsection \<open>Media resolution\<close>

text \<open>
  Claim C10. Take a request that passes the checks (a non-empty \<^verbatim>\<open>numbers\<close>, the session
  ready) and has an \<^verbatim>\<open>imageUrl\<close>. The handler runs the retried resolution of the media
  once, in the world of the request, before anything else. If it throws, the answer is 400
  with the text of the thrown value, and the whole trace of the request is the trace of the
  resolution, which holds no call to the messaging client: no lookup, no send. If it returns
  a media, the loop over the recipients follows with that media, and no run of the loop
  fetches anything: its trace holds no call of \<^verbatim>\<open>fromUrl\<close> or \<^verbatim>\<open>axios.get\<close>.
\<close>

theorem sendWhatsapp_media_once:
  assumes "numbers req = Some ns" and "ns \<noteq> []"
    and "imageUrl req = Some url" and "url \<noteq> []"
  shows "sendWhatsapp cc c True (Some req) w =
     (case withRetries (buildMediaFromUrl c url) ''buildMediaFromUrl'' w of
        (Inl err, t, w1) \<Rightarrow>
          (Inr \<lparr>code = 400,
                payload = ErrorBody ''No se pudo preparar la imagen'' (Some (errMsg err))\<rparr>,
           t, w1)
      | (Inr m, t, w1) \<Rightarrow>
          (Inr (report (entriesOf cc c (Some m) (caption req) (text' req) ns w1)),
           t @ fst (snd (dispatchLoop cc c (Some m) (caption req) (text' req) ns
                           \<lparr>world = w1, results = []\<rparr>)),
           worldAfter cc c (Some m) (caption req) (text' req) ns w1)) \<and>
   list_all (\<lambda>ev. \<not> isClientCall ev)
     (fst (snd (withRetries (buildMediaFromUrl c url) ''buildMediaFromUrl'' w))) \<and>
   list_all (\<lambda>ev. \<not> isFetch ev) (fst (snd (dispatchLoop cc c media cap tx ns' s)))"
proof -
  note run = sendWhatsapp_with_media [OF assms, of cc c w]
  have "emits (\<lambda>ev. \<not> isClientCall ev) (withRetries (buildMediaFromUrl c url) ''buildMediaFromUrl'')"
    by (intro emits_withRetries emits_buildMediaFromUrl) (simp_all add: retryWarning_def)
  then have fetch: "list_all (\<lambda>ev. \<not> isClientCall ev)
     (fst (snd (withRetries (buildMediaFromUrl c url) ''buildMediaFromUrl'' w)))"
    by (cases "withRetries (buildMediaFromUrl c url) ''buildMediaFromUrl'' w")
       (auto dest: emitsD)
  have "emits (\<lambda>ev. \<not> isFetch ev) (dispatchLoop cc c media cap tx ns')"
    by (rule emits_dispatchLoop) simp_all
  then have loop: "list_all (\<lambda>ev. \<not> isFetch ev) (fst (snd (dispatchLoop cc c media cap tx ns' s)))"
    by (cases "dispatchLoop cc c media cap tx ns' s") (auto dest: emitsD)
  show ?thesis using run fetch loop by blast
qed

theorem sendWhatsapp_media_once_witness:
  "sendWhatsapp ''57'' demo True (Some (promoRequest ''http://down/x.png'' (Some ''hi''))) [] =
     (Inr \<lparr>code = 400,
           payload = ErrorBody ''No se pudo preparar la imagen''
                       (Some ''No se pudo descargar la imagen: ECONNREFUSED'')\<rparr>,
      downTrace,
      []) \<and>
   sendWhatsapp ''57'' demo True (Some (promoRequest ''http://cdn/promo.png'' None)) [] =
     (Inr (report [\<lparr>number = ''573001234567'', status = Sent, reason = None, warning = None\<rparr>]),
      [FromUrl ''http://cdn/promo.png'',
       GetNumberId ''573001234567'', GetChatById ''573001234567@c.us'',
       SendMessage ''573001234567@c.us'' (MediaContent promo (Some ''Promo'')),
       Console ConsoleLog [[CHR 0xE2, CHR 0x9C, CHR 0x85] @ '' Enviado a: 573001234567''],
       Sleep 150],
      [(''573001234567@c.us'', MediaContent promo (Some ''Promo''))])"
proof -
  have down: "sendWhatsapp ''57'' demo True (Some (promoRequest ''http://down/x.png'' (Some ''hi''))) [] =
     (case withRetries (buildMediaFromUrl demo ''http://down/x.png'') ''buildMediaFromUrl'' [] of
        (Inl err, t, w1) \<Rightarrow>
          (Inr \<lparr>code = 400,
                payload = ErrorBody ''No se pudo preparar la imagen'' (Some (errMsg err))\<rparr>,
           t, w1)
      | (Inr m, t, w1) \<Rightarrow>
          (Inr (report (entriesOf ''57'' demo (Some m)
                          (caption (promoRequest ''http://down/x.png'' (Some ''hi'')))
                          (text' (promoRequest ''http://down/x.png'' (Some ''hi'')))
                          [''3001234567''] w1)),
           t @ fst (snd (dispatchLoop ''57'' demo (Some m)
                           (caption (promoRequest ''http://down/x.png'' (Some ''hi'')))
                           (text' (promoRequest ''http://down/x.png'' (Some ''hi'')))
                           [''3001234567''] \<lparr>world = w1, results = []\<rparr>)),
           worldAfter ''57'' demo (Some m)
             (caption (promoRequest ''http://down/x.png'' (Some ''hi'')))
             (text' (promoRequest ''http://down/x.png'' (Some ''hi''))) [''3001234567''] w1))"
    using sendWhatsapp_media_once
            [of "promoRequest ''http://down/x.png'' (Some ''hi'')" "[''3001234567'']"
                "''http://down/x.png''" "''57''" demo "[]"]
    by (simp add: promoRequest_def)
  have cdn: "sendWhatsapp ''57'' demo True (Some (promoRequest ''http://cdn/promo.png'' None)) [] =
     (case withRetries (buildMediaFromUrl demo ''http://cdn/promo.png'') ''buildMediaFromUrl'' [] of
        (Inl err, t, w1) \<Rightarrow>
          (Inr \<lparr>code = 400,
                payload = ErrorBody ''No se pudo preparar la imagen'' (Some (errMsg err))\<rparr>,
           t, w1)
      | (Inr m, t, w1) \<Rightarrow>
          (Inr (report (entriesOf ''57'' demo (Some m)
                          (caption (promoRequest ''http://cdn/promo.png'' None))
                          (text' (promoRequest ''http://cdn/promo.png'' None))
                          [''3001234567''] w1)),
           t @ fst (snd (dispatchLoop ''57'' demo (Some m)
                           (caption (promoRequest ''http://cdn/promo.png'' None))
                           (text' (promoRequest ''http://cdn/promo.png'' None))
                           [''3001234567''] \<lparr>world = w1, results = []\<rparr>)),
           worldAfter ''57'' demo (Some m)
             (caption (promoRequest ''http://cdn/promo.png'' None))
             (text' (promoRequest ''http://cdn/promo.png'' None)) [''3001234567''] w1))"
    using sendWhatsapp_media_once
            [of "promoRequest ''http://cdn/promo.png'' None" "[''3001234567'']"
                "''http://cdn/promo.png''" "''57''" demo "[]"]
    by (simp add: promoRequest_def)
  show ?thesis
    unfolding down cdn
    by (simp add: demo_retry_down demo_retry_cdn demo_entries_promo demo_world_promo
          demo_loop_promo promoRequest_def del: dispatchLoop.simps)
qed

subsection \<open>Media before text\<close>














section \<open>Properties of the connection lifecycle\<close>







end
